theory Spec2Isabelle
  imports Complex_Main
begin

section \<open>Errors and tensors\<close>

text \<open>
  Every exception of the Python source is a value of \<open>error\<close>; a function that can raise
  returns \<open>error + 'a\<close>, with \<open>Inl\<close> the exception. An assertion error keeps the two
  numbers its message formats.
\<close>

datatype assert_msg =
    ExpectedInputDim nat nat
  | RopeSeqLenMismatch nat nat

datatype error =
    TypeError
  | UnboundLocalError
  | AttributeError string
  | AssertionError assert_msg
  | ValueError string
  | IndexError
  | RuntimeError
  | EinopsError
  | ZeroDivisionError

text \<open>
  A torch tensor is its shape together with its elements, addressed by their indices.
  Only the elements inside the shape mean anything. Floating-point numbers are modelled
  by the reals, so the casts between precisions (\<open>.to(dtype)\<close>, \<open>.float()\<close>,
  \<open>.double()\<close>) are the identity and are left out.
\<close>

record 'a tensor2 =
  rows2 :: nat
  cols2 :: nat
  at2 :: "nat \<Rightarrow> nat \<Rightarrow> 'a"

record 'a tensor3 =
  size0 :: nat
  size1 :: nat
  size2 :: nat
  at3 :: "nat \<Rightarrow> nat \<Rightarrow> nat \<Rightarrow> 'a"

record 'a tensor4 =
  dim0 :: nat
  dim1 :: nat
  dim2 :: nat
  dim3 :: nat
  at4 :: "nat \<Rightarrow> nat \<Rightarrow> nat \<Rightarrow> nat \<Rightarrow> 'a"

text \<open>A latent \<open>[batch, channel, time, height, width]\<close>.\<close>

record 'a tensor5 =
  n_batch :: nat
  n_chan :: nat
  n_time :: nat
  n_height :: nat
  n_width :: nat
  at5 :: "nat \<Rightarrow> nat \<Rightarrow> nat \<Rightarrow> nat \<Rightarrow> nat \<Rightarrow> 'a"

text \<open>Sequencing: the first exception ends the computation.\<close>

definition and_then :: "error + 'a \<Rightarrow> ('a \<Rightarrow> error + 'b) \<Rightarrow> error + 'b" where
  "and_then r f = (case r of Inl e \<Rightarrow> Inl e | Inr v \<Rightarrow> f v)"

text \<open>The first error of a list of results, or all the values (a Python loop that raises).\<close>

fun sequence :: "(error + 'a) list \<Rightarrow> error + 'a list" where
  "sequence [] = Inr []"
| "sequence (r # rs) =
     (case r of Inl e \<Rightarrow> Inl e
      | Inr v \<Rightarrow> (case sequence rs of Inl e \<Rightarrow> Inl e | Inr vs \<Rightarrow> Inr (v # vs)))"

text \<open>Broadcasting of one axis: equal extents, or one of them 1.\<close>

definition bdim :: "nat \<Rightarrow> nat \<Rightarrow> nat option" where
  "bdim a b = (if a = b then Some a else if a = 1 then Some b else if b = 1 then Some a else None)"

definition bidx :: "nat \<Rightarrow> nat \<Rightarrow> nat" where
  "bidx n i = (if n = 1 then 0 else i)"

section \<open>Rotary frequency table\<close>

text \<open>\<open>torch.arange(0, dim, 2)\<close>.\<close>

definition arange2 :: "nat \<Rightarrow> nat list" where
  "arange2 dm = map (\<lambda>i. 2 * i) [0..<(dm + 1) div 2]"

text \<open>\<open>torch.polar(abs, angle)\<close>.\<close>

definition polar :: "real \<Rightarrow> real \<Rightarrow> complex" where
  "polar r a = Complex (r * cos a) (r * sin a)"

definition precompute_freqs_cis :: "nat \<Rightarrow> nat \<Rightarrow> real \<Rightarrow> complex tensor2" where
  "precompute_freqs_cis dm endp theta =
     (let freqs = map (\<lambda>a. 1 / (theta powr (real a / real dm))) (take (dm div 2) (arange2 dm))
      in \<lparr>rows2 = endp, cols2 = length freqs,
          at2 = (\<lambda>p k. polar 1 (real p * (freqs ! k)))\<rparr>)"

definition precompute_freqs_cis_3d ::
  "nat \<Rightarrow> nat \<Rightarrow> real \<Rightarrow> complex tensor2 \<times> complex tensor2 \<times> complex tensor2" where
  "precompute_freqs_cis_3d dm endp theta =
     (let f_freqs_cis = precompute_freqs_cis (dm - 2 * (dm div 3)) endp theta;
          h_freqs_cis = precompute_freqs_cis (dm div 3) endp theta;
          w_freqs_cis = precompute_freqs_cis (dm div 3) endp theta
      in (f_freqs_cis, h_freqs_cis, w_freqs_cis))"

text \<open>
  \<open>rope_apply(x, freqs, num_heads)\<close>. \<open>x\<close> is \<open>[b, s, n * d]\<close>; \<open>freqs\<close> is the
  four-axis tensor \<open>[b, s, 1, d / 2]\<close> of the source with its head axis of extent 1 left
  out. \<open>rearrange\<close> raises when the last axis does not split into \<open>num_heads\<close> heads,
  \<open>reshape(b, s, n, -1, 2)\<close> raises when \<open>b * s * n = 0\<close> or the head dimension is odd,
  and the product broadcasts each axis.
\<close>

definition rope_apply :: "real tensor3 \<Rightarrow> complex tensor3 \<Rightarrow> nat \<Rightarrow> error + real tensor3" where
  "rope_apply x freqs num_heads =
     (if num_heads = 0 \<or> size2 x mod num_heads \<noteq> 0 then Inl EinopsError
      else
        let d = size2 x div num_heads in
        if size0 x * size1 x * num_heads = 0 \<or> odd d then Inl RuntimeError
        else
          (case (bdim (size0 x) (size0 freqs), bdim (size1 x) (size1 freqs),
                 bdim (d div 2) (size2 freqs)) of
             (Some b_out, Some s_out, Some p_out) \<Rightarrow>
               Inr \<lparr>size0 = b_out, size1 = s_out, size2 = num_heads * (p_out * 2),
                    at3 = (\<lambda>b s j.
                      let h = j div (p_out * 2);
                          r = j mod (p_out * 2);
                          p = r div 2;
                          xb = bidx (size0 x) b;
                          xs = bidx (size1 x) s;
                          xp = bidx (d div 2) p;
                          x_out = Complex (at3 x xb xs (h * d + 2 * xp))
                                          (at3 x xb xs (h * d + 2 * xp + 1))
                                  * at3 freqs (bidx (size0 freqs) b) (bidx (size1 freqs) s)
                                      (bidx (size2 freqs) p)
                      in if even r then Re x_out else Im x_out)\<rparr>
           | _ \<Rightarrow> Inl RuntimeError))"

text \<open>The conjugate frequencies: the rotation by the negative angle.\<close>

definition conj_freqs :: "complex tensor3 \<Rightarrow> complex tensor3" where
  "conj_freqs freqs = freqs\<lparr>at3 := (\<lambda>b s k. cnj (at3 freqs b s k))\<rparr>"


section \<open>Dictionaries and linear layers\<close>

text \<open>A Python dict is an association list in insertion order; \<open>d.get(k, default)\<close>.\<close>

definition dict_get :: "('k \<times> 'v) list \<Rightarrow> 'k \<Rightarrow> 'v \<Rightarrow> 'v" where
  "dict_get d k dflt = (case map_of d k of None \<Rightarrow> dflt | Some v \<Rightarrow> v)"

text \<open>\<open>torch.full\<close>, \<open>torch.ones\<close> and \<open>torch.zeros\<close> on three axes.\<close>

definition full :: "nat \<Rightarrow> nat \<Rightarrow> nat \<Rightarrow> 'a \<Rightarrow> 'a tensor3" where
  "full n0 n1 n2 v = \<lparr>size0 = n0, size1 = n1, size2 = n2, at3 = (\<lambda>b s k. v)\<rparr>"

text \<open>
  \<open>nn.Linear\<close>: \<open>weight\<close> is \<open>[out_features, in_features]\<close>. Applied to a tensor whose
  last axis is not \<open>in_features\<close> it raises.
\<close>

record linear =
  in_features :: nat
  out_features :: nat
  weight :: "nat \<Rightarrow> nat \<Rightarrow> real"
  bias :: "nat \<Rightarrow> real"

definition linear_forward :: "linear \<Rightarrow> real tensor3 \<Rightarrow> error + real tensor3" where
  "linear_forward l x =
     (if size2 x \<noteq> in_features l then Inl RuntimeError
      else Inr \<lparr>size0 = size0 x, size1 = size1 x, size2 = out_features l,
                at3 = (\<lambda>b s out. (\<Sum>i\<leftarrow>[0..<in_features l]. at3 x b s i * weight l out i)
                                   + bias l out)\<rparr>)"

text \<open>The elementwise product of two tensors, with broadcasting.\<close>

definition mul3 :: "real tensor3 \<Rightarrow> real tensor3 \<Rightarrow> error + real tensor3" where
  "mul3 a b =
     (case (bdim (size0 a) (size0 b), bdim (size1 a) (size1 b), bdim (size2 a) (size2 b)) of
        (Some n0, Some n1, Some n2) \<Rightarrow>
          Inr \<lparr>size0 = n0, size1 = n1, size2 = n2,
               at3 = (\<lambda>i j k. at3 a (bidx (size0 a) i) (bidx (size1 a) j) (bidx (size2 a) k)
                               * at3 b (bidx (size0 b) i) (bidx (size1 b) j) (bidx (size2 b) k))\<rparr>
      | _ \<Rightarrow> Inl RuntimeError)"

text \<open>
  The in-place sum \<open>a += b\<close>: \<open>b\<close> is broadcast to the shape of \<open>a\<close>, which does not
  change; otherwise it raises.
\<close>

definition iadd3 :: "real tensor3 \<Rightarrow> real tensor3 \<Rightarrow> error + real tensor3" where
  "iadd3 a b =
     (if (size0 b = size0 a \<or> size0 b = 1) \<and> (size1 b = size1 a \<or> size1 b = 1)
         \<and> (size2 b = size2 a \<or> size2 b = 1)
      then Inr (a\<lparr>at3 := (\<lambda>i j k. at3 a i j k
                     + at3 b (bidx (size0 b) i) (bidx (size1 b) j) (bidx (size2 b) k))\<rparr>)
      else Inl RuntimeError)"

section \<open>The mixture of experts\<close>

record MultiModalMoE =
  unified_dim :: nat
  num_experts :: nat
  top_k :: nat
  output_dim :: nat
  modality_to_expert :: "(string \<times> nat) list"
  experts :: "linear list"

text \<open>
  The initial value of every learned parameter is drawn at random; the constructors take
  it from \<open>init\<close>, by the name of the parameter and its indices (the indices of the
  module in its lists, then those of the element).
\<close>

type_synonym param_init = "string \<Rightarrow> nat list \<Rightarrow> real"

definition mk_linear :: "param_init \<Rightarrow> string \<Rightarrow> nat list \<Rightarrow> nat \<Rightarrow> nat \<Rightarrow> linear" where
  "mk_linear init name idx n_in n_out =
     \<lparr>in_features = n_in, out_features = n_out,
      weight = (\<lambda>r c. init (name @ ''.weight'') (idx @ [r, c])),
      bias = (\<lambda>r. init (name @ ''.bias'') (idx @ [r]))\<rparr>"

text \<open>
  \<open>MultiModalMoE.__init__\<close>; \<open>output_dim or unified_dim\<close> takes \<open>unified_dim\<close> for
  \<open>None\<close> and for 0.
\<close>

definition MultiModalMoE_init ::
  "param_init \<Rightarrow> nat list \<Rightarrow> nat \<Rightarrow> nat option \<Rightarrow> nat \<Rightarrow> nat \<Rightarrow> MultiModalMoE" where
  "MultiModalMoE_init init idx unified_dim' output_dim' num_experts' top_k' =
     (let od = (case output_dim' of None \<Rightarrow> unified_dim'
                | Some v \<Rightarrow> if v = 0 then unified_dim' else v)
      in \<lparr>unified_dim = unified_dim', num_experts = num_experts', top_k = top_k',
          output_dim = od,
          modality_to_expert = [(''sekai'', 0), (''nuscenes'', 1), (''openx'', 2), (''unknown'', 0)],
          experts = map (\<lambda>e. mk_linear init ''experts'' (idx @ [e]) unified_dim' od)
                        [0..<num_experts']\<rparr>)"

record expert_stats =
  stats_modality_type :: string
  target_expert_id :: nat
  target_expert_usage :: real
  expert_selection_ratio :: "real list"
  avg_expert_weights :: "real list"
  avg_top_k_weights :: "real list"
  stats_num_experts :: nat
  stats_top_k :: nat

text \<open>The positions of a three-axis tensor, in row-major order.\<close>

definition positions :: "'a tensor3 \<Rightarrow> (nat \<times> nat \<times> nat) list" where
  "positions t = concat (map (\<lambda>b. concat (map (\<lambda>s. map (\<lambda>k. (b, s, k)) [0..<size2 t])
                                             [0..<size1 t])) [0..<size0 t])"

text \<open>
  \<open>collect_expert_statistics\<close>. \<open>expert_weights[mask]\<close> raises when the mask (of the
  shape of the indices) has not the shape of the weights, and \<open>expert_selection_ratio
  [target_expert_id]\<close> raises when there is no such expert. The mean of no number is
  \<open>nan\<close> in the source and 0 here.
\<close>

definition collect_expert_statistics ::
  "MultiModalMoE \<Rightarrow> real tensor3 \<Rightarrow> int tensor3 \<Rightarrow> string \<Rightarrow> nat \<Rightarrow> error + expert_stats" where
  "collect_expert_statistics self expert_weights top_k_indices modality_type target =
     (let selected = (\<lambda>expert_id. filter (\<lambda>(b, s, k). at3 top_k_indices b s k = int expert_id)
                                           (positions top_k_indices));
          expert_selection_count = map (\<lambda>expert_id. real (length (selected expert_id)))
                                       [0..<num_experts self];
          total_selections = sum_list expert_selection_count;
          ratio = map (\<lambda>c. c / (total_selections + 1 / 10 ^ 8)) expert_selection_count;
          same_shape = (size0 top_k_indices = size0 expert_weights
                        \<and> size1 top_k_indices = size1 expert_weights
                        \<and> size2 top_k_indices = size2 expert_weights)
      in if \<exists>expert_id \<in> set [0..<num_experts self]. selected expert_id \<noteq> [] \<and> \<not> same_shape
         then Inl IndexError
         else
           let avg = map (\<lambda>expert_id.
                       if selected expert_id \<noteq> []
                       then (\<Sum>(b, s, k)\<leftarrow>selected expert_id. at3 expert_weights b s k)
                            / real (length (selected expert_id))
                       else 0) [0..<num_experts self];
               avg_top_k = map (\<lambda>k. (\<Sum>b\<leftarrow>[0..<size0 expert_weights].
                                         \<Sum>s\<leftarrow>[0..<size1 expert_weights]. at3 expert_weights b s k)
                                      / real (size0 expert_weights * size1 expert_weights))
                               [0..<size2 expert_weights]
           in if target < num_experts self
              then Inr \<lparr>stats_modality_type = modality_type, target_expert_id = target,
                        target_expert_usage = ratio ! target, expert_selection_ratio = ratio,
                        avg_expert_weights = avg, avg_top_k_weights = avg_top_k,
                        stats_num_experts = num_experts self, stats_top_k = top_k self\<rparr>
              else Inl IndexError)"

text \<open>
  One round \<open>k\<close> of the loop of \<open>MultiModalMoE.forward\<close>, on the list of the experts'
  outputs (the stacked \<open>expert_outputs\<close>, which \<open>forward\<close> checks to be of one shape). \<open>top_k_indices[:, :, k]\<close> raises when the
  last axis has no slot \<open>k\<close>; \<open>torch.gather\<close> raises when the index is larger than the
  input on an axis it does not gather, or holds an index that is no expert; the slice
  \<open>expert_weights[:, :, k:k+1]\<close> is empty when the weights have no slot \<open>k\<close>.
\<close>

definition moe_round ::
  "real tensor3 list \<Rightarrow> real tensor3 \<Rightarrow> int tensor3 \<Rightarrow> real tensor3 \<Rightarrow> nat \<Rightarrow> error + real tensor3" where
  "moe_round expert_outputs expert_weights top_k_indices output k =
     (if size2 top_k_indices \<le> k then Inl IndexError
      else
        let weight = \<lparr>size0 = size0 expert_weights, size1 = size1 expert_weights,
                       size2 = (if k < size2 expert_weights then 1 else 0),
                       at3 = (\<lambda>b s j. at3 expert_weights b s (k + j))\<rparr>
        in if size0 output < size0 top_k_indices \<or> size1 output < size1 top_k_indices
              \<or> (\<exists>b \<in> set [0..<size0 top_k_indices]. \<exists>s \<in> set [0..<size1 top_k_indices].
                    at3 top_k_indices b s k < 0
                    \<or> int (length expert_outputs) \<le> at3 top_k_indices b s k)
           then Inl RuntimeError
           else
             let expert_output = \<lparr>size0 = size0 top_k_indices, size1 = size1 top_k_indices,
                                   size2 = size2 (hd expert_outputs),
                                   at3 = (\<lambda>b s out.
                                     at3 (expert_outputs ! nat (at3 top_k_indices b s k)) b s out)\<rparr>
             in and_then (mul3 weight expert_output) (\<lambda>weighted. iadd3 output weighted))"

fun moe_rounds ::
  "real tensor3 list \<Rightarrow> real tensor3 \<Rightarrow> int tensor3 \<Rightarrow> real tensor3 \<Rightarrow> nat list \<Rightarrow> error + real tensor3" where
  "moe_rounds expert_outputs expert_weights top_k_indices output [] = Inr output"
| "moe_rounds expert_outputs expert_weights top_k_indices output (k # ks) =
     and_then (moe_round expert_outputs expert_weights top_k_indices output k)
       (\<lambda>output'. moe_rounds expert_outputs expert_weights top_k_indices output' ks)"

definition MultiModalMoE_forward ::
  "MultiModalMoE \<Rightarrow> real tensor3 \<Rightarrow> real tensor3 \<Rightarrow> int tensor3 \<Rightarrow> string
     \<Rightarrow> error + (real tensor3 \<times> expert_stats)" where
  "MultiModalMoE_forward self x expert_weights top_k_indices modality_type =
     (if size2 x \<noteq> unified_dim self
      then Inl (AssertionError (ExpectedInputDim (unified_dim self) (size2 x)))
      else if experts self = [] then Inl IndexError
      else
        let target = dict_get (modality_to_expert self) modality_type 0 in
        and_then (collect_expert_statistics self expert_weights top_k_indices modality_type target)
          (\<lambda>stats.
        and_then (sequence (map (\<lambda>expert. linear_forward expert x) (experts self)))
          (\<lambda>expert_outputs.
        if \<not> list_all (\<lambda>t. size2 t = size2 (hd expert_outputs)) expert_outputs
        then Inl RuntimeError
        else
        and_then (moe_rounds expert_outputs expert_weights top_k_indices
                    (full (size0 x) (size1 x) (output_dim self) 0) [0..<top_k self])
          (\<lambda>output. Inr (output, stats)))))"

section \<open>Tensor operations of the token assembler\<close>

text \<open>
  \<open>torch.cat(ts, dim=0)\<close> on matrices and \<open>torch.stack(ts, dim=0)\<close>: both raise on an
  empty list and on shapes that do not agree. \<open>cat1\<close> is \<open>torch.cat([a, b], dim=1)\<close>.
\<close>

fun cat0 :: "'a tensor2 list \<Rightarrow> error + 'a tensor2" where
  "cat0 [] = Inl RuntimeError"
| "cat0 [t] = Inr t"
| "cat0 (t # ts) =
     and_then (cat0 ts) (\<lambda>r.
       if cols2 t = cols2 r
       then Inr \<lparr>rows2 = rows2 t + rows2 r, cols2 = cols2 t,
                 at2 = (\<lambda>i j. if i < rows2 t then at2 t i j else at2 r (i - rows2 t) j)\<rparr>
       else Inl RuntimeError)"

definition stack0 :: "'a tensor2 list \<Rightarrow> error + 'a tensor3" where
  "stack0 ts =
     (case ts of
        [] \<Rightarrow> Inl RuntimeError
      | t # _ \<Rightarrow>
          if list_all (\<lambda>u. rows2 u = rows2 t \<and> cols2 u = cols2 t) ts
          then Inr \<lparr>size0 = length ts, size1 = rows2 t, size2 = cols2 t,
                    at3 = (\<lambda>b i j. at2 (ts ! b) i j)\<rparr>
          else Inl RuntimeError)"

definition cat1 :: "'a tensor3 \<Rightarrow> 'a tensor3 \<Rightarrow> error + 'a tensor3" where
  "cat1 a b =
     (if size0 a = size0 b \<and> size2 a = size2 b
      then Inr \<lparr>size0 = size0 a, size1 = size1 a + size1 b, size2 = size2 a,
                at3 = (\<lambda>n i j. if i < size1 a then at3 a n i j else at3 b n (i - size1 a) j)\<rparr>
      else Inl RuntimeError)"

text \<open>A bound of a Python slice on an axis of extent \<open>n\<close>.\<close>

definition slice_bound :: "nat \<Rightarrow> int \<Rightarrow> nat" where
  "slice_bound n i = (if i < 0 then nat (max (i + int n) 0) else min (nat i) n)"

text \<open>\<open>x[:, start:stop, :]\<close>.\<close>

definition slice1 :: "'a tensor3 \<Rightarrow> int \<Rightarrow> int \<Rightarrow> 'a tensor3" where
  "slice1 x start stop =
     (let lo = slice_bound (size1 x) start; hi = slice_bound (size1 x) stop
      in \<lparr>size0 = size0 x, size1 = hi - lo, size2 = size2 x,
          at3 = (\<lambda>b i j. at3 x b (lo + i) j)\<rparr>)"

text \<open>\<open>x[:, [i, j], :]\<close>: an index outside \<open>[-n, n)\<close> raises.\<close>

definition select1 :: "'a tensor3 \<Rightarrow> int list \<Rightarrow> error + 'a tensor3" where
  "select1 x idx =
     (if list_all (\<lambda>i. - int (size1 x) \<le> i \<and> i < int (size1 x)) idx
      then Inr \<lparr>size0 = size0 x, size1 = length idx, size2 = size2 x,
                at3 = (\<lambda>b i j. at3 x b (nat (if idx ! i < 0 then idx ! i + int (size1 x)
                                                else idx ! i)) j)\<rparr>
      else Inl IndexError)"

text \<open>
  \<open>x.unsqueeze(2).unsqueeze(3).repeat(1, 1, h, w, 1)\<close> followed by
  \<open>rearrange(x, 'b f h w d -> b (f h w) d')\<close>.
\<close>

definition spatial_repeat :: "'a tensor3 \<Rightarrow> nat \<Rightarrow> nat \<Rightarrow> 'a tensor3" where
  "spatial_repeat x h w =
     \<lparr>size0 = size0 x, size1 = size1 x * h * w, size2 = size2 x,
      at3 = (\<lambda>b i j. at3 x b (i div (h * w)) j)\<rparr>"

section \<open>Convolutions and patches\<close>

text \<open>
  \<open>nn.Conv3d(in, out, kernel_size=k, stride=k)\<close>: it raises on a wrong number of
  channels and on an input smaller than the kernel.
\<close>

record conv3d =
  conv_in :: nat
  conv_out :: nat
  kernel_size :: "nat \<times> nat \<times> nat"
  conv_weight :: "nat \<Rightarrow> nat \<Rightarrow> nat \<Rightarrow> nat \<Rightarrow> nat \<Rightarrow> real"
  conv_bias :: "nat \<Rightarrow> real"

definition conv3d_forward :: "conv3d \<Rightarrow> real tensor5 \<Rightarrow> error + real tensor5" where
  "conv3d_forward c x =
     (case kernel_size c of (kt, kh, kw) \<Rightarrow>
        if kt = 0 \<or> kh = 0 \<or> kw = 0 \<or> n_chan x \<noteq> conv_in c
           \<or> n_time x < kt \<or> n_height x < kh \<or> n_width x < kw
        then Inl RuntimeError
        else Inr \<lparr>n_batch = n_batch x, n_chan = conv_out c, n_time = n_time x div kt,
                  n_height = n_height x div kh, n_width = n_width x div kw,
                  at5 = (\<lambda>b out f h w.
                    conv_bias c out +
                    (\<Sum>ch\<leftarrow>[0..<conv_in c]. \<Sum>i\<leftarrow>[0..<kt]. \<Sum>j\<leftarrow>[0..<kh]. \<Sum>l\<leftarrow>[0..<kw].
                       conv_weight c out ch i j l
                       * at5 x b ch (f * kt + i) (h * kh + j) (w * kw + l)))\<rparr>)"

text \<open>\<open>rearrange(x, 'b c f h w -> b (f h w) c')\<close>.\<close>

definition tokens_of :: "'a tensor5 \<Rightarrow> 'a tensor3" where
  "tokens_of x =
     \<lparr>size0 = n_batch x, size1 = n_time x * n_height x * n_width x, size2 = n_chan x,
      at3 = (\<lambda>b i c. at5 x b c (i div (n_height x * n_width x))
                          (i mod (n_height x * n_width x) div n_width x) (i mod n_width x))\<rparr>"

text \<open>
  \<open>pad_for_3d_conv\<close> on a latent: replicate padding up to multiples of the kernel. The
  padding raises on an empty channel, time, height or width axis.
\<close>

definition pad_for_3d_conv :: "'a tensor5 \<Rightarrow> nat \<times> nat \<times> nat \<Rightarrow> error + 'a tensor5" where
  "pad_for_3d_conv x kern =
     (case kern of (pt, ph, pw) \<Rightarrow>
        let pad_t = (pt - n_time x mod pt) mod pt;
            pad_h = (ph - n_height x mod ph) mod ph;
            pad_w = (pw - n_width x mod pw) mod pw
        in if pt = 0 \<or> ph = 0 \<or> pw = 0 then Inl ZeroDivisionError
           else if n_chan x = 0 \<or> n_time x = 0 \<or> n_height x = 0 \<or> n_width x = 0
           then Inl RuntimeError
           else Inr \<lparr>n_batch = n_batch x, n_chan = n_chan x, n_time = n_time x + pad_t,
                     n_height = n_height x + pad_h, n_width = n_width x + pad_w,
                     at5 = (\<lambda>b c t h w. at5 x b c (min t (n_time x - 1))
                                            (min h (n_height x - 1)) (min w (n_width x - 1)))\<rparr>)"

record CleanXEmbedder =
  proj :: conv3d
  proj_2x :: conv3d
  proj_4x :: conv3d

definition CleanXEmbedder_forward :: "CleanXEmbedder \<Rightarrow> real tensor5 \<Rightarrow> string \<Rightarrow> error + real tensor5" where
  "CleanXEmbedder_forward self x scale =
     (if scale = ''1x'' then conv3d_forward (proj self) x
      else if scale = ''2x'' then conv3d_forward (proj_2x self) x
      else if scale = ''4x'' then conv3d_forward (proj_4x self) x
      else Inl (ValueError scale))"

section \<open>Frequencies of a frame\<close>

text \<open>The rows \<open>start..<stop\<close> of a table, flattened (\<open>view(..., -1)\<close> reads them so).\<close>

definition table_rows :: "'a tensor2 \<Rightarrow> nat \<Rightarrow> nat \<Rightarrow> 'a list" where
  "table_rows t start stop = concat (map (\<lambda>r. map (at2 t r) [0..<cols2 t]) [start..<stop])"

text \<open>
  \<open>flat.view(1, n, 1, -1)\<close> as \<open>n\<close> rows: it raises for \<open>n = 0\<close> and when the elements do
  not divide into \<open>n\<close> rows.
\<close>

definition view_rows :: "nat \<Rightarrow> 'a list \<Rightarrow> error + 'a list list" where
  "view_rows n flat =
     (if n = 0 \<or> length flat mod n \<noteq> 0 then Inl RuntimeError
      else Inr (map (\<lambda>i. take (length flat div n) (drop (i * (length flat div n)) flat)) [0..<n]))"

text \<open>
  The block \<open>spatial_freqs\<close> of the loops of \<open>process_input_hidden_states\<close>: the
  frequencies of the \<open>h * w\<close> tokens of the frame of index \<open>t_idx\<close>, each the time
  frequencies \<open>freqs[0][t_idx:t_idx+1]\<close>, the height frequencies of its row and the
  width frequencies of its column, in this order.
\<close>

definition spatial_freqs ::
  "'a tensor2 \<times> 'a tensor2 \<times> 'a tensor2 \<Rightarrow> int \<Rightarrow> nat \<Rightarrow> nat \<Rightarrow> error + 'a tensor2" where
  "spatial_freqs freqs t_idx h w =
     (case freqs of (ft, fh, fw) \<Rightarrow>
        let f_freq = table_rows ft (slice_bound (rows2 ft) t_idx) (slice_bound (rows2 ft) (t_idx + 1));
            h_freq = table_rows fh 0 (min h (rows2 fh));
            w_freq = table_rows fw 0 (min w (rows2 fw))
        in and_then (view_rows h h_freq) (\<lambda>h_rows.
           and_then (view_rows w w_freq) (\<lambda>w_rows.
             Inr \<lparr>rows2 = h * w,
                  cols2 = length f_freq + length h_freq div h + length w_freq div w,
                  at2 = (\<lambda>i j. (f_freq @ h_rows ! (i div w) @ w_rows ! (i mod w)) ! j)\<rparr>)))"

text \<open>
  The frequencies of one sample: the frames of \<open>t_indices\<close> one after the other
  (\<open>torch.cat(batch_rope_freqs, dim=0)\<close>).
\<close>

definition frames_freqs ::
  "'a tensor2 \<times> 'a tensor2 \<times> 'a tensor2 \<Rightarrow> int list \<Rightarrow> nat \<Rightarrow> nat \<Rightarrow> error + 'a tensor2" where
  "frames_freqs freqs t_indices h w =
     and_then (sequence (map (\<lambda>t_idx. spatial_freqs freqs t_idx h w) t_indices)) cat0"

text \<open>
  The loop \<open>for b in range(B)\<close> over the rows of an index tensor, and the final
  \<open>torch.stack\<close>; \<open>indices[b]\<close> raises when the index tensor has no row \<open>b\<close>.
\<close>

definition indexed_freqs ::
  "'a tensor2 \<times> 'a tensor2 \<times> 'a tensor2 \<Rightarrow> int list list \<Rightarrow> nat \<Rightarrow> nat \<Rightarrow> nat \<Rightarrow> error + 'a tensor3" where
  "indexed_freqs freqs indices B h w =
     and_then (sequence (map (\<lambda>b. if b < length indices
                                   then frames_freqs freqs (indices ! b) h w
                                   else Inl IndexError) [0..<B])) stack0"

section \<open>The model object\<close>

definition mk_conv3d :: "param_init \<Rightarrow> string \<Rightarrow> nat \<Rightarrow> nat \<Rightarrow> nat \<times> nat \<times> nat \<Rightarrow> conv3d" where
  "mk_conv3d init name n_in n_out k =
     \<lparr>conv_in = n_in, conv_out = n_out, kernel_size = k,
      conv_weight = (\<lambda>out ch i j l. init (name @ ''.weight'') [out, ch, i, j, l]),
      conv_bias = (\<lambda>out. init (name @ ''.bias'') [out])\<rparr>"

text \<open>
  Of a \<open>DiTBlockWithMoE\<close> the model keeps the two attributes the routing reads: the
  flag and the mixture of experts, which the constructor creates only for
  \<open>use_moe and moe_config\<close> (an empty or absent dict is false).
\<close>

record DiTBlockWithMoE =
  block_use_moe :: bool
  moe :: "MultiModalMoE option"

definition DiTBlockWithMoE_init ::
  "param_init \<Rightarrow> nat \<Rightarrow> nat \<Rightarrow> bool \<Rightarrow> (string \<times> nat) list option \<Rightarrow> DiTBlockWithMoE" where
  "DiTBlockWithMoE_init init layer dm use_moe' moe_config' =
     \<lparr>block_use_moe = use_moe',
      moe = (case moe_config' of
               None \<Rightarrow> None
             | Some cfg \<Rightarrow>
                 if use_moe' \<and> cfg \<noteq> []
                 then Some (MultiModalMoE_init init [layer] (dict_get cfg ''unified_dim'' 30)
                              (Some dm) (dict_get cfg ''num_experts'' 4) (dict_get cfg ''top_k'' 2))
                 else None)\<rparr>"

text \<open>
  A \<open>WanModelMoe\<close> object. The constructor sets neither \<open>clean_x_embedder\<close> nor the
  three modality processors; they are attributes a caller may attach (\<open>None\<close>: absent).
  A modality processor is its projector, and \<open>freqs_attr\<close> is the attribute \<open>freqs\<close>.
\<close>

record WanModelMoe =
  dim_attr :: nat
  freq_dim :: nat
  has_image_input :: bool
  patch_size :: "nat \<times> nat \<times> nat"
  use_moe :: bool
  moe_config :: "(string \<times> nat) list"
  patch_embedding :: conv3d
  text_embedding :: "linear \<times> linear"
  time_embedding :: "linear \<times> linear"
  time_projection :: linear
  router_modality_to_expert :: "(string \<times> nat) list"
  top_k_attr :: "nat option"
  blocks :: "DiTBlockWithMoE list"
  freqs_attr :: "complex tensor2 \<times> complex tensor2 \<times> complex tensor2"
  clean_x_embedder :: "CleanXEmbedder option"
  sekai_processor :: "linear option"
  nuscenes_processor :: "linear option"
  openx_processor :: "linear option"

text \<open>
  \<open>WanModelMoe.__init__\<close>. \<open>top_k\<close> is 1 whatever \<open>moe_config\<close> says;
  \<open>dim // num_heads\<close> raises for no head.
\<close>

definition WanModelMoe_init ::
  "param_init \<Rightarrow> nat \<Rightarrow> nat \<Rightarrow> nat \<Rightarrow> nat \<Rightarrow> nat \<Rightarrow> nat \<Rightarrow> nat \<times> nat \<times> nat \<Rightarrow> nat \<Rightarrow> nat
     \<Rightarrow> bool \<Rightarrow> bool \<Rightarrow> (string \<times> nat) list option \<Rightarrow> error + WanModelMoe" where
  "WanModelMoe_init init dm in_dim ffn_dim out_dim text_dim freq_dim' patch_size' num_heads
       num_layers has_image_input' use_moe' moe_config' =
     (if num_heads = 0 then Inl ZeroDivisionError
      else Inr
        \<lparr>dim_attr = dm, freq_dim = freq_dim', has_image_input = has_image_input',
         patch_size = patch_size', use_moe = use_moe',
         moe_config = (case moe_config' of None \<Rightarrow> [] | Some cfg \<Rightarrow> cfg),
         patch_embedding = mk_conv3d init ''patch_embedding'' in_dim dm patch_size',
         text_embedding = (mk_linear init ''text_embedding.0'' [] text_dim dm,
                           mk_linear init ''text_embedding.2'' [] dm dm),
         time_embedding = (mk_linear init ''time_embedding.0'' [] freq_dim' dm,
                           mk_linear init ''time_embedding.2'' [] dm dm),
         time_projection = mk_linear init ''time_projection.1'' [] dm (dm * 6),
         router_modality_to_expert =
           [(''sekai'', 0), (''nuscenes'', 1), (''openx'', 2), (''unknown'', 0)],
         top_k_attr = Some 1,
         blocks = map (\<lambda>layer. DiTBlockWithMoE_init init layer dm use_moe' moe_config')
                      [0..<num_layers],
         freqs_attr = precompute_freqs_cis_3d (dm div num_heads) 1024 10000,
         clean_x_embedder = None, sekai_processor = None, nuscenes_processor = None,
         openx_processor = None\<rparr>)"

text \<open>\<open>create_clean_x_embedder\<close>: three convolutions from 16 channels to \<open>dim\<close>.\<close>

definition create_clean_x_embedder :: "param_init \<Rightarrow> WanModelMoe \<Rightarrow> CleanXEmbedder" where
  "create_clean_x_embedder init self =
     \<lparr>proj = mk_conv3d init ''proj'' 16 (dim_attr self) (1, 2, 2),
      proj_2x = mk_conv3d init ''proj_2x'' 16 (dim_attr self) (2, 4, 4),
      proj_4x = mk_conv3d init ''proj_4x'' 16 (dim_attr self) (4, 8, 8)\<rparr>"

section \<open>The router decision policy\<close>

definition compute_router_decisions ::
  "WanModelMoe \<Rightarrow> 'a tensor3 \<Rightarrow> string \<Rightarrow> real tensor3 \<times> int tensor3 \<times> real" where
  "compute_router_decisions self combined_modality_input modality_type =
     (let batch_size = size0 combined_modality_input;
          seq_len = size1 combined_modality_input;
          top_k' = (case top_k_attr self of Some k \<Rightarrow> k | None \<Rightarrow> 1);
          target_expert_id = dict_get (router_modality_to_expert self) modality_type 0;
          router_indices = full batch_size seq_len top_k' (int target_expert_id);
          router_weights = full batch_size seq_len top_k' 1;
          specialization_loss = 0
      in (router_weights, router_indices, specialization_loss))"

section \<open>The modality processors\<close>

text \<open>An input of a modality: \<open>[batch, input_dim]\<close> or \<open>[batch, seq_len, input_dim]\<close>.\<close>

datatype modality_tensor = Dim2 "real tensor2" | Dim3 "real tensor3"

definition ModalityProcessor_forward :: "linear \<Rightarrow> modality_tensor \<Rightarrow> error + real tensor3" where
  "ModalityProcessor_forward projector x =
     (case x of
        Dim2 t \<Rightarrow> linear_forward projector
                    \<lparr>size0 = rows2 t, size1 = 1, size2 = cols2 t, at3 = (\<lambda>b s j. at2 t b j)\<rparr>
      | Dim3 t \<Rightarrow> linear_forward projector t)"

text \<open>\<open>d[k] = v\<close> on a dict.\<close>

definition dict_set :: "('k \<times> 'v) list \<Rightarrow> 'k \<Rightarrow> 'v \<Rightarrow> ('k \<times> 'v) list" where
  "dict_set d k v =
     (if k \<in> set (map fst d) then map (\<lambda>(k', v'). if k' = k then (k', v) else (k', v')) d
      else d @ [(k, v)])"

text \<open>
  One round of the loop of \<open>process_modality_inputs\<close>, on the dict built so far and the
  variable \<open>processed\<close> (\<open>None\<close>: not yet bound).
\<close>

definition process_modality_step ::
  "WanModelMoe \<Rightarrow> (string \<times> real tensor3) list \<times> real tensor3 option \<Rightarrow> string \<times> modality_tensor
     \<Rightarrow> error + ((string \<times> real tensor3) list \<times> real tensor3 option)" where
  "process_modality_step self st item =
     (case (st, item) of ((d, processed), (modality_type, input_data)) \<Rightarrow>
        let run = (\<lambda>p. and_then (ModalityProcessor_forward p input_data)
                          (\<lambda>r. Inr (dict_set d modality_type r, Some r)))
        in if modality_type = ''sekai'' \<and> sekai_processor self \<noteq> None
           then run (the (sekai_processor self))
           else if modality_type = ''nuscenes'' \<and> nuscenes_processor self \<noteq> None
           then run (the (nuscenes_processor self))
           else if modality_type = ''openx'' \<and> openx_processor self \<noteq> None
           then run (the (openx_processor self))
           else Inr (d, processed))"

fun process_modality_loop ::
  "WanModelMoe \<Rightarrow> (string \<times> real tensor3) list \<times> real tensor3 option
     \<Rightarrow> (string \<times> modality_tensor) list
     \<Rightarrow> error + ((string \<times> real tensor3) list \<times> real tensor3 option)" where
  "process_modality_loop self st [] = Inr st"
| "process_modality_loop self st (item # items) =
     and_then (process_modality_step self st item) (\<lambda>st'. process_modality_loop self st' items)"

text \<open>
  \<open>process_modality_inputs\<close>. Without modality inputs, or with the mixture of experts
  off, it returns the single value \<open>None\<close> (here \<open>Inr None\<close>); otherwise the pair of
  the dict and of the last processed input, and it raises when no input was processed.
\<close>

definition process_modality_inputs ::
  "WanModelMoe \<Rightarrow> (string \<times> modality_tensor) list option
     \<Rightarrow> error + ((string \<times> real tensor3) list \<times> real tensor3) option" where
  "process_modality_inputs self modality_inputs =
     (case modality_inputs of
        None \<Rightarrow> Inr None
      | Some items \<Rightarrow>
          if items = [] \<or> \<not> use_moe self then Inr None
          else and_then (process_modality_loop self ([], None) items) (\<lambda>(d, processed).
                 case processed of
                   None \<Rightarrow> Inl UnboundLocalError
                 | Some p \<Rightarrow> Inr (Some (d, p))))"

section \<open>The multi-scale token assembler\<close>

record assembled =
  hidden_states :: "real tensor3"
  rope_freqs :: "complex tensor3"
  grid_size :: "nat \<times> nat \<times> nat"
  combined_modality_embeddings :: "real tensor3 option"
  processed_modality_inputs :: "(string \<times> real tensor3 option) list option"

definition patchify :: "WanModelMoe \<Rightarrow> real tensor5 \<Rightarrow> error + (real tensor3 \<times> nat \<times> nat \<times> nat)" where
  "patchify self x =
     and_then (conv3d_forward (patch_embedding self) x)
       (\<lambda>y. Inr (tokens_of y, (n_time y, n_height y, n_width y)))"

text \<open>\<open>indices[0].min().item()\<close> and \<open>indices[0].max().item()\<close> of an index tensor.\<close>

definition row0_min_max :: "int list list \<Rightarrow> error + (int \<times> int)" where
  "row0_min_max indices =
     (case indices of
        [] \<Rightarrow> Inl IndexError
      | row # _ \<Rightarrow> if row = [] then Inl RuntimeError else Inr (Min (set row), Max (set row)))"

text \<open>\<open>clean_latent_indices[0][0].item() if clean_latent_indices is not None else 0\<close>.\<close>

definition start_index :: "int list list option \<Rightarrow> error + int" where
  "start_index clean_latent_indices =
     (case clean_latent_indices of
        None \<Rightarrow> Inr 0
      | Some indices \<Rightarrow>
          (case indices of
             [] \<Rightarrow> Inl IndexError
           | row # _ \<Rightarrow> (case row of [] \<Rightarrow> Inl IndexError | i # _ \<Rightarrow> Inr i)))"

text \<open>
  The camera embedding of the primary latents: the frames
  \<open>[min - start_indice, max + 1 - start_indice)\<close> of \<open>cam_emb\<close>, repeated over the grid.
\<close>

definition target_camera_spatial ::
  "real tensor3 option \<Rightarrow> int list list \<Rightarrow> int \<Rightarrow> nat \<Rightarrow> nat \<Rightarrow> error + real tensor3 option" where
  "target_camera_spatial cam_emb latent_indices start_indice h w =
     (case cam_emb of
        None \<Rightarrow> Inr None
      | Some cam \<Rightarrow>
          and_then (row0_min_max latent_indices) (\<lambda>(lo, hi).
            let target_start = lo - start_indice;
                target_end = hi + 1 - start_indice;
                target_camera = slice1 cam target_start target_end
            in Inr (Some (spatial_repeat target_camera h w))))"

text \<open>\<open>torch.cat([camera, combined_modality_embeddings], dim=1)\<close>.\<close>

definition cat_camera :: "real tensor3 \<Rightarrow> real tensor3 option \<Rightarrow> error + real tensor3 option" where
  "cat_camera camera combined =
     (case combined of
        None \<Rightarrow> Inl TypeError
      | Some c \<Rightarrow> and_then (cat1 camera c) (\<lambda>r. Inr (Some r)))"

text \<open>
  The block of the clean latents at scale 1x. Its frequencies use the grid \<open>(h, w)\<close> of
  the primary latents and the frame indices \<open>clean_latent_indices\<close>. The three values
  are \<open>hidden_states\<close>, \<open>rope_freqs\<close> and \<open>combined_modality_embeddings\<close>.
\<close>

definition prepend_1x ::
  "WanModelMoe \<Rightarrow> nat \<Rightarrow> nat \<Rightarrow> nat \<Rightarrow> int \<Rightarrow> real tensor3 option
     \<Rightarrow> real tensor5 option \<Rightarrow> int list list option
     \<Rightarrow> real tensor3 \<times> complex tensor3 \<times> real tensor3 option
     \<Rightarrow> error + (real tensor3 \<times> complex tensor3 \<times> real tensor3 option)" where
  "prepend_1x self B h w start_indice cam_emb clean_latents clean_latent_indices st =
     (case st of (hidden, rope, combined) \<Rightarrow>
      case (clean_latents, clean_latent_indices) of
        (Some latents, Some indices) \<Rightarrow>
          and_then (case clean_x_embedder self of
                      None \<Rightarrow> Inl (AttributeError ''clean_x_embedder'')
                    | Some e \<Rightarrow> CleanXEmbedder_forward e latents ''1x'') (\<lambda>embedded.
          let clean_hidden_states = tokens_of embedded in
          and_then (indexed_freqs (freqs_attr self) indices B h w) (\<lambda>clean_rope_freqs.
          and_then (case cam_emb of
                      None \<Rightarrow> Inr combined
                    | Some cam \<Rightarrow>
                        and_then (row0_min_max indices) (\<lambda>(lo, hi).
                          let clean_start = lo - start_indice;
                              clean_end = hi + 1 - start_indice
                          in and_then (if clean_start = clean_end
                                       then Inr (slice1 cam clean_start (clean_start + 1))
                                       else select1 cam [clean_start, clean_end])
                               (\<lambda>clean_camera.
                                  cat_camera (spatial_repeat clean_camera h w) combined)))
            (\<lambda>combined'.
          and_then (cat1 clean_hidden_states hidden) (\<lambda>hidden'.
          and_then (cat1 clean_rope_freqs rope) (\<lambda>rope'.
            Inr (hidden', rope', combined'))))))
      | _ \<Rightarrow> Inr st)"

text \<open>
  The camera embedding of a coarse scale: zero, except on the frames whose index (less
  \<open>start_indice\<close>) is a frame of \<open>cam_emb\<close>. The assignment raises when the batch of
  \<open>cam_emb\<close> does not broadcast to \<open>B\<close>.
\<close>

definition coarse_camera ::
  "real tensor3 \<Rightarrow> nat \<Rightarrow> nat \<Rightarrow> int list \<Rightarrow> int \<Rightarrow> error + real tensor3" where
  "coarse_camera cam B clean_f valid_indices start_indice =
     (let cam_idx = (\<lambda>frame_idx. valid_indices ! frame_idx - start_indice);
          hit = (\<lambda>frame_idx. frame_idx < min clean_f (length valid_indices)
                   \<and> 0 \<le> cam_idx frame_idx \<and> cam_idx frame_idx < int (size1 cam))
      in if (\<exists>frame_idx \<in> set [0..<min clean_f (length valid_indices)]. hit frame_idx)
            \<and> \<not> (size0 cam = B \<or> size0 cam = 1)
         then Inl RuntimeError
         else Inr \<lparr>size0 = B, size1 = clean_f, size2 = size2 cam,
                   at3 = (\<lambda>b frame_idx j.
                     if hit frame_idx
                     then at3 cam (bidx (size0 cam) b) (nat (cam_idx frame_idx)) j
                     else 0)\<rparr>)"

text \<open>
  The block of the clean latents at a coarse scale; the source has it twice, for
  \<open>''2x''\<close> with the kernel \<open>(2, 4, 4)\<close> and for \<open>''4x''\<close> with \<open>(4, 8, 8)\<close>. The
  indices below 0 are dropped; the frequencies use the grid of the embedded latents,
  frame \<open>i\<close> taking the \<open>i\<close>-th valid index, or the last one when they run out.
\<close>

definition prepend_coarse ::
  "WanModelMoe \<Rightarrow> string \<Rightarrow> nat \<times> nat \<times> nat \<Rightarrow> nat \<Rightarrow> int \<Rightarrow> real tensor3 option
     \<Rightarrow> real tensor5 option \<Rightarrow> int list list option
     \<Rightarrow> real tensor3 \<times> complex tensor3 \<times> real tensor3 option
     \<Rightarrow> error + (real tensor3 \<times> complex tensor3 \<times> real tensor3 option)" where
  "prepend_coarse self scale kern B start_indice cam_emb clean_latents clean_latent_indices st =
     (case st of (hidden, rope, combined) \<Rightarrow>
      case (clean_latents, clean_latent_indices) of
        (Some latents, Some indices) \<Rightarrow>
          let valid_indices = filter (\<lambda>i. 0 \<le> i) (concat indices) in
          if concat indices = [] \<or> valid_indices = [] then Inr st
          else
            and_then (pad_for_3d_conv latents kern) (\<lambda>padded.
            and_then (case clean_x_embedder self of
                        None \<Rightarrow> Inl (AttributeError ''clean_x_embedder'')
                      | Some e \<Rightarrow> CleanXEmbedder_forward e padded scale) (\<lambda>embedded.
            let clean_f = n_time embedded; clean_h = n_height embedded;
                clean_w = n_width embedded;
                clean_hidden_states = tokens_of embedded;
                t_indices = map (\<lambda>frame_idx. if frame_idx < length valid_indices
                                                then valid_indices ! frame_idx
                                                else last valid_indices) [0..<clean_f]
            in
            and_then (and_then (sequence (map (\<lambda>b. frames_freqs (freqs_attr self) t_indices
                                                      clean_h clean_w) [0..<B])) stack0)
              (\<lambda>clean_rope_freqs.
            and_then (case cam_emb of
                        None \<Rightarrow> Inr combined
                      | Some cam \<Rightarrow>
                          and_then (coarse_camera cam B clean_f valid_indices start_indice)
                            (\<lambda>clean_camera.
                               cat_camera (spatial_repeat clean_camera clean_h clean_w) combined))
              (\<lambda>combined'.
            and_then (cat1 clean_hidden_states hidden) (\<lambda>hidden'.
            and_then (cat1 clean_rope_freqs rope) (\<lambda>rope'.
              Inr (hidden', rope', combined')))))))
      | _ \<Rightarrow> Inr st)"

text \<open>
  \<open>process_input_hidden_states\<close>: the primary latents, then the blocks of the scales
  1x, 2x and 4x in the order of the source, each putting its tokens and frequencies in
  front of what is there. \<open>rope_freqs\<close> is returned with a head axis of extent 1, which
  the model leaves out.
\<close>

definition process_input_hidden_states ::
  "WanModelMoe \<Rightarrow> real tensor5 \<Rightarrow> int list list option
     \<Rightarrow> real tensor5 option \<Rightarrow> int list list option
     \<Rightarrow> real tensor5 option \<Rightarrow> int list list option
     \<Rightarrow> real tensor5 option \<Rightarrow> int list list option
     \<Rightarrow> real tensor3 option \<Rightarrow> (string \<times> 'm) list option \<Rightarrow> error + assembled" where
  "process_input_hidden_states self latents latent_indices clean_latents clean_latent_indices
       clean_latents_2x clean_latent_2x_indices clean_latents_4x clean_latent_4x_indices
       cam_emb modality_inputs =
     and_then (patchify self latents) (\<lambda>(hidden, grid).
     case grid of (f, h, w) \<Rightarrow>
     let B = size0 hidden;
         latent_indices' = (case latent_indices of
                              None \<Rightarrow> replicate B (map int [0..<f])
                            | Some indices \<Rightarrow> indices)
     in
     and_then (indexed_freqs (freqs_attr self) latent_indices' B h w) (\<lambda>rope.
     and_then (start_index clean_latent_indices) (\<lambda>start_indice.
     and_then (target_camera_spatial cam_emb latent_indices' start_indice h w) (\<lambda>combined.
     and_then (prepend_1x self B h w start_indice cam_emb clean_latents clean_latent_indices
                 (hidden, rope, combined)) (\<lambda>st1.
     and_then (prepend_coarse self ''2x'' (2, 4, 4) B start_indice cam_emb
                 clean_latents_2x clean_latent_2x_indices st1) (\<lambda>st2.
     and_then (prepend_coarse self ''4x'' (4, 8, 8) B start_indice cam_emb
                 clean_latents_4x clean_latent_4x_indices st2) (\<lambda>(hidden', rope', combined').
       Inr \<lparr>hidden_states = hidden', rope_freqs = rope', grid_size = grid,
            combined_modality_embeddings = combined',
            processed_modality_inputs =
              (case modality_inputs of
                 None \<Rightarrow> None
               | Some items \<Rightarrow>
                   if items \<noteq> [] \<and> use_moe self
                   then Some (map (\<lambda>(modality_type, _). (modality_type, combined')) items)
                   else None)\<rparr>)))))))"

section \<open>The forward pass up to the block stack\<close>

definition linear_forward2 :: "linear \<Rightarrow> real tensor2 \<Rightarrow> error + real tensor2" where
  "linear_forward2 l x =
     (if cols2 x \<noteq> in_features l then Inl RuntimeError
      else Inr \<lparr>rows2 = rows2 x, cols2 = out_features l,
                at2 = (\<lambda>b out. (\<Sum>i\<leftarrow>[0..<in_features l]. at2 x b i * weight l out i)
                                 + bias l out)\<rparr>)"

definition silu :: "real \<Rightarrow> real" where
  "silu v = v / (1 + exp (- v))"

text \<open>\<open>nn.GELU(approximate='tanh')\<close>.\<close>

definition gelu_tanh :: "real \<Rightarrow> real" where
  "gelu_tanh v = 0.5 * v * (1 + tanh (sqrt (2 / pi) * (v + 0.044715 * v ^ 3)))"

definition sinusoidal_embedding_1d :: "nat \<Rightarrow> real list \<Rightarrow> real tensor2" where
  "sinusoidal_embedding_1d dm position =
     (let half = dm div 2;
          sinusoid = (\<lambda>i j. position ! i * 10000 powr (- (real j / real half)))
      in \<lparr>rows2 = length position, cols2 = half + half,
          at2 = (\<lambda>i j. if j < half then cos (sinusoid i j) else sin (sinusoid i (j - half)))\<rparr>)"

definition text_embedding_forward :: "WanModelMoe \<Rightarrow> real tensor3 \<Rightarrow> error + real tensor3" where
  "text_embedding_forward self x =
     and_then (linear_forward (fst (text_embedding self)) x) (\<lambda>y.
       linear_forward (snd (text_embedding self))
         (y\<lparr>at3 := (\<lambda>b s j. gelu_tanh (at3 y b s j))\<rparr>))"

definition time_embedding_forward :: "WanModelMoe \<Rightarrow> real tensor2 \<Rightarrow> error + real tensor2" where
  "time_embedding_forward self x =
     and_then (linear_forward2 (fst (time_embedding self)) x) (\<lambda>y.
       linear_forward2 (snd (time_embedding self)) (y\<lparr>at2 := (\<lambda>b j. silu (at2 y b j))\<rparr>))"

text \<open>\<open>self.time_projection(t).unflatten(1, (6, self.dim))\<close>.\<close>

definition time_projection_forward :: "WanModelMoe \<Rightarrow> real tensor2 \<Rightarrow> error + real tensor3" where
  "time_projection_forward self t =
     and_then (linear_forward2 (time_projection self) (t\<lparr>at2 := (\<lambda>b j. silu (at2 t b j))\<rparr>))
       (\<lambda>y. if cols2 y = 6 * dim_attr self
             then Inr \<lparr>size0 = rows2 y, size1 = 6, size2 = dim_attr self,
                       at3 = (\<lambda>b i j. at2 y b (i * dim_attr self + j))\<rparr>
             else Inl RuntimeError)"

text \<open>The sum of two tensors, with broadcasting.\<close>

definition add3 :: "real tensor3 \<Rightarrow> real tensor3 \<Rightarrow> error + real tensor3" where
  "add3 a b =
     (case (bdim (size0 a) (size0 b), bdim (size1 a) (size1 b), bdim (size2 a) (size2 b)) of
        (Some n0, Some n1, Some n2) \<Rightarrow>
          Inr \<lparr>size0 = n0, size1 = n1, size2 = n2,
               at3 = (\<lambda>i j k. at3 a (bidx (size0 a) i) (bidx (size1 a) j) (bidx (size2 a) k)
                               + at3 b (bidx (size0 b) i) (bidx (size1 b) j) (bidx (size2 b) k))\<rparr>
      | _ \<Rightarrow> Inl RuntimeError)"

text \<open>
  The loop that sums the processed modality inputs, on \<open>combined_modality_input\<close>
  (\<open>None\<close> at first) and \<open>active_modality\<close>; a tensor plus \<open>None\<close> raises.
\<close>

fun combine_modalities ::
  "real tensor3 option \<times> string \<Rightarrow> (string \<times> real tensor3 option) list
     \<Rightarrow> error + (real tensor3 option \<times> string)" where
  "combine_modalities st [] = Inr st"
| "combine_modalities (combined, active) ((modality_type, processed_input) # items) =
     (case combined of
        None \<Rightarrow> combine_modalities (processed_input, modality_type) items
      | Some c \<Rightarrow>
          (case processed_input of
             None \<Rightarrow> Inl TypeError
           | Some p \<Rightarrow> and_then (add3 c p)
                         (\<lambda>r. combine_modalities (Some r, modality_type) items)))"

record before_blocks =
  tokens :: assembled
  original_context_length :: nat
  context_embedded :: "real tensor3 option"
  t_embedded :: "real tensor2"
  t_mod :: "real tensor3"
  router_weights :: "real tensor3 option"
  router_indices :: "int tensor3 option"
  total_specialization_loss :: real

text \<open>
  \<open>WanModelMoe.forward\<close> from its first line to the loop over the blocks. The result of
  \<open>process_modality_inputs\<close> is unpacked into two variables, which raises on \<open>None\<close>;
  the second replaces the argument \<open>cam_emb\<close>. The statistics buffers of the blocks,
  which the source empties here, are not modelled.
\<close>

definition forward_before_blocks ::
  "WanModelMoe \<Rightarrow> real tensor5 \<Rightarrow> real list \<Rightarrow> real tensor3 option \<Rightarrow> int list list option
     \<Rightarrow> real tensor5 option \<Rightarrow> int list list option
     \<Rightarrow> real tensor5 option \<Rightarrow> int list list option
     \<Rightarrow> real tensor5 option \<Rightarrow> int list list option
     \<Rightarrow> (string \<times> modality_tensor) list option \<Rightarrow> real tensor3 option
     \<Rightarrow> error + before_blocks" where
  "forward_before_blocks self latents timestep cam_emb latent_indices
       clean_latents clean_latent_indices clean_latents_2x clean_latent_2x_indices
       clean_latents_4x clean_latent_4x_indices modality_inputs context =
     and_then (process_modality_inputs self modality_inputs) (\<lambda>unpacked.
     case unpacked of
       None \<Rightarrow> Inl TypeError
     | Some (modality_inputs', cam_emb') \<Rightarrow>
     and_then (process_input_hidden_states self latents latent_indices
                 clean_latents clean_latent_indices clean_latents_2x clean_latent_2x_indices
                 clean_latents_4x clean_latent_4x_indices (Some cam_emb') (Some modality_inputs'))
       (\<lambda>asm.
     case patch_size self of (p_t, p_h, p) \<Rightarrow>
     if p_t = 0 \<or> p = 0 then Inl ZeroDivisionError
     else
     let post_patch_num_frames = n_time latents div p_t;
         post_patch_height = n_height latents div p;
         post_patch_width = n_width latents div p;
         context_length = post_patch_num_frames * post_patch_height * post_patch_width
     in
     and_then (case context of
                 None \<Rightarrow> Inr None
               | Some c \<Rightarrow> and_then (text_embedding_forward self c) (\<lambda>r. Inr (Some r)))
       (\<lambda>context'.
     and_then (time_embedding_forward self (sinusoidal_embedding_1d (freq_dim self) timestep))
       (\<lambda>t.
     and_then (time_projection_forward self t) (\<lambda>t_mod'.
     if size1 (rope_freqs asm) \<noteq> size1 (hidden_states asm)
     then Inl (AssertionError (RopeSeqLenMismatch (size1 (rope_freqs asm))
                                 (size1 (hidden_states asm))))
     else
     and_then (case processed_modality_inputs asm of
                 None \<Rightarrow> Inr (None, None, 0)
               | Some items \<Rightarrow>
                   if use_moe self \<and> items \<noteq> []
                   then and_then (combine_modalities (None, ''unknown'') items)
                          (\<lambda>(combined, active_modality).
                             case combined of
                               None \<Rightarrow> Inr (None, None, 0)
                             | Some c \<Rightarrow>
                                 (case compute_router_decisions self c active_modality of
                                    (rw, ri, loss) \<Rightarrow> Inr (Some rw, Some ri, loss)))
                   else Inr (None, None, 0))
       (\<lambda>(rw, ri, loss).
          Inr \<lparr>tokens = asm, original_context_length = context_length,
               context_embedded = context', t_embedded = t, t_mod = t_mod',
               router_weights = rw, router_indices = ri,
               total_specialization_loss = loss\<rparr>))))))"

section \<open>Attention\<close>

text \<open>
  \<open>RMSNorm\<close>: \<open>x * rsqrt(mean(x^2) + eps) * weight\<close>, the mean over the last axis; the
  product with the weight (of \<open>norm_dim\<close> elements) broadcasts.
\<close>

record RMSNorm =
  norm_dim :: nat
  eps :: real
  norm_weight :: "nat \<Rightarrow> real"

definition RMSNorm_forward :: "RMSNorm \<Rightarrow> real tensor3 \<Rightarrow> error + real tensor3" where
  "RMSNorm_forward self x =
     (case bdim (size2 x) (norm_dim self) of
        None \<Rightarrow> Inl RuntimeError
      | Some n \<Rightarrow>
          Inr \<lparr>size0 = size0 x, size1 = size1 x, size2 = n,
               at3 = (\<lambda>b s j.
                 at3 x b s (bidx (size2 x) j)
                 * (1 / sqrt ((\<Sum>i\<leftarrow>[0..<size2 x]. (at3 x b s i)\<^sup>2) / real (size2 x) + eps self))
                 * norm_weight self (bidx (norm_dim self) j))\<rparr>)"

text \<open>
  The rearrangements of \<open>flash_attention\<close>: \<open>'b s (n d) -> b n s d'\<close>,
  \<open>'b s (n d) -> b s n d'\<close> and their inverses, which check the head axis against
  \<open>num_heads\<close>.
\<close>

definition split_bnsd :: "'a tensor3 \<Rightarrow> nat \<Rightarrow> error + 'a tensor4" where
  "split_bnsd x n =
     (if n = 0 \<or> size2 x mod n \<noteq> 0 then Inl EinopsError
      else Inr \<lparr>dim0 = size0 x, dim1 = n, dim2 = size1 x, dim3 = size2 x div n,
                at4 = (\<lambda>b h s j. at3 x b s (h * (size2 x div n) + j))\<rparr>)"

definition split_bsnd :: "'a tensor3 \<Rightarrow> nat \<Rightarrow> error + 'a tensor4" where
  "split_bsnd x n =
     (if n = 0 \<or> size2 x mod n \<noteq> 0 then Inl EinopsError
      else Inr \<lparr>dim0 = size0 x, dim1 = size1 x, dim2 = n, dim3 = size2 x div n,
                at4 = (\<lambda>b s h j. at3 x b s (h * (size2 x div n) + j))\<rparr>)"

definition merge_bnsd :: "'a tensor4 \<Rightarrow> nat \<Rightarrow> error + 'a tensor3" where
  "merge_bnsd x n =
     (if dim1 x \<noteq> n then Inl EinopsError
      else Inr \<lparr>size0 = dim0 x, size1 = dim2 x, size2 = n * dim3 x,
                at3 = (\<lambda>b s c. at4 x b (c div dim3 x) s (c mod dim3 x))\<rparr>)"

definition merge_bsnd :: "'a tensor4 \<Rightarrow> nat \<Rightarrow> error + 'a tensor3" where
  "merge_bsnd x n =
     (if dim2 x \<noteq> n then Inl EinopsError
      else Inr \<lparr>size0 = dim0 x, size1 = dim1 x, size2 = n * dim3 x,
                at3 = (\<lambda>b s c. at4 x b s (c div dim3 x) (c mod dim3 x))\<rparr>)"

text \<open>
  \<open>F.scaled_dot_product_attention(q, k, v)\<close> on \<open>[b, n, s, d]\<close>, by its reference
  formula \<open>softmax(q k\<^sup>T / sqrt d) v\<close>, without mask. Over no key the sum is 0.
\<close>

definition scaled_dot_product_attention ::
  "real tensor4 \<Rightarrow> real tensor4 \<Rightarrow> real tensor4 \<Rightarrow> error + real tensor4" where
  "scaled_dot_product_attention q k v =
     (if dim0 k \<noteq> dim0 q \<or> dim0 v \<noteq> dim0 q \<or> dim1 k \<noteq> dim1 q \<or> dim1 v \<noteq> dim1 q
         \<or> dim3 k \<noteq> dim3 q \<or> dim2 v \<noteq> dim2 k
      then Inl RuntimeError
      else
        let score = (\<lambda>b h i j. (\<Sum>e\<leftarrow>[0..<dim3 q]. at4 q b h i e * at4 k b h j e)
                                / sqrt (real (dim3 q)));
            attn = (\<lambda>b h i j. exp (score b h i j) / (\<Sum>j'\<leftarrow>[0..<dim2 k]. exp (score b h i j')))
        in Inr \<lparr>dim0 = dim0 q, dim1 = dim1 q, dim2 = dim2 q, dim3 = dim3 v,
                at4 = (\<lambda>b h i c. \<Sum>j\<leftarrow>[0..<dim2 k]. attn b h i j * at4 v b h j c)\<rparr>)"

text \<open>
  The module-level flags of the optional attention packages, and their kernels, which are
  not part of this code: the kernels are parameters.
\<close>

type_synonym attn_kernel = "real tensor4 \<Rightarrow> real tensor4 \<Rightarrow> real tensor4 \<Rightarrow> error + real tensor4"

record attn_env =
  FLASH_ATTN_3_AVAILABLE :: bool
  FLASH_ATTN_2_AVAILABLE :: bool
  SAGE_ATTN_AVAILABLE :: bool
  flash_attn_3_func :: attn_kernel
  flash_attn_2_func :: attn_kernel
  sageattn :: attn_kernel

definition attend ::
  "('a tensor3 \<Rightarrow> nat \<Rightarrow> error + 'a tensor4) \<Rightarrow> ('b tensor4 \<Rightarrow> nat \<Rightarrow> error + 'b tensor3)
     \<Rightarrow> ('a tensor4 \<Rightarrow> 'a tensor4 \<Rightarrow> 'a tensor4 \<Rightarrow> error + 'b tensor4)
     \<Rightarrow> 'a tensor3 \<Rightarrow> 'a tensor3 \<Rightarrow> 'a tensor3 \<Rightarrow> nat \<Rightarrow> error + 'b tensor3" where
  "attend split merge kern q k v num_heads =
     and_then (split q num_heads) (\<lambda>q'.
     and_then (split k num_heads) (\<lambda>k'.
     and_then (split v num_heads) (\<lambda>v'.
     and_then (kern q' k' v') (\<lambda>x. merge x num_heads))))"

definition flash_attention ::
  "attn_env \<Rightarrow> real tensor3 \<Rightarrow> real tensor3 \<Rightarrow> real tensor3 \<Rightarrow> nat \<Rightarrow> bool \<Rightarrow> error + real tensor3" where
  "flash_attention env q k v num_heads compatibility_mode =
     (if compatibility_mode
      then attend split_bnsd merge_bnsd scaled_dot_product_attention q k v num_heads
      else if FLASH_ATTN_3_AVAILABLE env
      then attend split_bsnd merge_bsnd (flash_attn_3_func env) q k v num_heads
      else if FLASH_ATTN_2_AVAILABLE env
      then attend split_bsnd merge_bsnd (flash_attn_2_func env) q k v num_heads
      else if SAGE_ATTN_AVAILABLE env
      then attend split_bnsd merge_bnsd (sageattn env) q k v num_heads
      else attend split_bnsd merge_bnsd scaled_dot_product_attention q k v num_heads)"

text \<open>
  \<open>CrossAttention\<close>. The image projections and their norm exist only in an object
  constructed with \<open>has_image_input\<close>.
\<close>

record CrossAttention =
  ca_num_heads :: nat
  ca_q :: linear
  ca_k :: linear
  ca_v :: linear
  ca_o :: linear
  ca_norm_q :: RMSNorm
  ca_norm_k :: RMSNorm
  ca_has_image_input :: bool
  ca_k_img :: "linear option"
  ca_v_img :: "linear option"
  ca_norm_k_img :: "RMSNorm option"

definition mk_RMSNorm :: "nat \<Rightarrow> real \<Rightarrow> RMSNorm" where
  "mk_RMSNorm dm eps' = \<lparr>norm_dim = dm, eps = eps', norm_weight = (\<lambda>i. 1)\<rparr>"

definition CrossAttention_init :: "param_init \<Rightarrow> nat \<Rightarrow> nat \<Rightarrow> real \<Rightarrow> bool \<Rightarrow> CrossAttention" where
  "CrossAttention_init init dm num_heads eps' has_image_input' =
     \<lparr>ca_num_heads = num_heads,
      ca_q = mk_linear init ''q'' [] dm dm, ca_k = mk_linear init ''k'' [] dm dm,
      ca_v = mk_linear init ''v'' [] dm dm, ca_o = mk_linear init ''o'' [] dm dm,
      ca_norm_q = mk_RMSNorm dm eps', ca_norm_k = mk_RMSNorm dm eps',
      ca_has_image_input = has_image_input',
      ca_k_img = (if has_image_input' then Some (mk_linear init ''k_img'' [] dm dm) else None),
      ca_v_img = (if has_image_input' then Some (mk_linear init ''v_img'' [] dm dm) else None),
      ca_norm_k_img = (if has_image_input' then Some (mk_RMSNorm dm eps') else None)\<rparr>"

text \<open>An attribute of the object, or the \<open>AttributeError\<close> of its absence.\<close>

definition attribute :: "string \<Rightarrow> 'a option \<Rightarrow> error + 'a" where
  "attribute name a = (case a of None \<Rightarrow> Inl (AttributeError name) | Some v \<Rightarrow> Inr v)"

text \<open>
  \<open>CrossAttention.forward\<close>. The slices \<open>y[:, :257]\<close> and \<open>y[:, 257:]\<close> are Python
  slices: on a shorter context the first is the whole context and the second is empty.
\<close>

definition CrossAttention_forward ::
  "attn_env \<Rightarrow> CrossAttention \<Rightarrow> real tensor3 \<Rightarrow> real tensor3 \<Rightarrow> error + real tensor3" where
  "CrossAttention_forward env self x y =
     (let img = slice1 y 0 257;
          ctx = (if ca_has_image_input self then slice1 y 257 (int (size1 y)) else y)
      in
      and_then (and_then (linear_forward (ca_q self) x) (RMSNorm_forward (ca_norm_q self))) (\<lambda>q.
      and_then (and_then (linear_forward (ca_k self) ctx) (RMSNorm_forward (ca_norm_k self))) (\<lambda>k.
      and_then (linear_forward (ca_v self) ctx) (\<lambda>v.
      and_then (flash_attention env q k v (ca_num_heads self) False) (\<lambda>x'.
      and_then (if ca_has_image_input self
                then and_then (attribute ''k_img'' (ca_k_img self)) (\<lambda>k_img_layer.
                     and_then (linear_forward k_img_layer img) (\<lambda>k_img_lin.
                     and_then (attribute ''norm_k_img'' (ca_norm_k_img self)) (\<lambda>norm_layer.
                     and_then (RMSNorm_forward norm_layer k_img_lin) (\<lambda>k_img.
                     and_then (attribute ''v_img'' (ca_v_img self)) (\<lambda>v_img_layer.
                     and_then (linear_forward v_img_layer img) (\<lambda>v_img.
                     and_then (flash_attention env q k_img v_img (ca_num_heads self) False)
                       (\<lambda>y'. add3 x' y')))))))
                else Inr x') (\<lambda>x''.
        linear_forward (ca_o self) x''))))))"

section \<open>Properties of the rotary frequency table\<close>

lemma polar_one: "polar 1 a = cis a"
  by (simp add: polar_def complex_eq_iff)

lemma cols2_precompute: "cols2 (precompute_freqs_cis dm e th) = dm div 2"
  by (simp add: precompute_freqs_cis_def Let_def arange2_def)

lemma rows2_precompute: "rows2 (precompute_freqs_cis dm e th) = e"
  by (simp add: precompute_freqs_cis_def Let_def)

lemma at2_precompute:
  assumes "k < dm div 2"
  shows "at2 (precompute_freqs_cis dm e 10000) p k =
           cis (real p * 10000 powr (- (2 * real k) / real dm))"
  using assms
  by (simp add: precompute_freqs_cis_def Let_def polar_one arange2_def powr_minus divide_simps)

lemma cmod_precompute: "cmod (at2 (precompute_freqs_cis dm e th) p k) = 1"
  by (simp add: precompute_freqs_cis_def Let_def polar_one)

text \<open>
  C7. For head dimension \<open>d\<close> and extent \<open>E\<close> the three tables are built for the axis
  dimensions \<open>d - 2 * (d div 3)\<close>, \<open>d div 3\<close> and \<open>d div 3\<close>; a table for axis
  dimension \<open>a\<close> has \<open>E\<close> positions and \<open>a div 2\<close> slots, and its entry at position
  \<open>p\<close> and slot \<open>k\<close> is the unit complex number of angle
  \<open>p * 10000 powr (- 2 k / a)\<close>.
\<close>

theorem precompute_freqs_cis_3d_entries:
  "(case precompute_freqs_cis_3d d E 10000 of (ft, fh, fw) \<Rightarrow>
      rows2 ft = E \<and> cols2 ft = (d - 2 * (d div 3)) div 2 \<and>
      rows2 fh = E \<and> cols2 fh = (d div 3) div 2 \<and>
      rows2 fw = E \<and> cols2 fw = (d div 3) div 2 \<and>
      (\<forall>p<E. \<forall>k<(d - 2 * (d div 3)) div 2.
         at2 ft p k = cis (real p * 10000 powr (- (2 * real k) / real (d - 2 * (d div 3)))) \<and>
         cmod (at2 ft p k) = 1) \<and>
      (\<forall>p<E. \<forall>k<(d div 3) div 2.
         at2 fh p k = cis (real p * 10000 powr (- (2 * real k) / real (d div 3))) \<and>
         cmod (at2 fh p k) = 1 \<and>
         at2 fw p k = cis (real p * 10000 powr (- (2 * real k) / real (d div 3))) \<and>
         cmod (at2 fw p k) = 1))"
  by (simp add: precompute_freqs_cis_3d_def cols2_precompute rows2_precompute
      at2_precompute cmod_precompute)

theorem precompute_freqs_cis_3d_entries_witness:
  "(3::nat) < 1024 \<and> (1::nat) < (128 - 2 * (128 div 3)) div 2 \<and>
   cols2 (fst (precompute_freqs_cis_3d 128 1024 10000)) = 22 \<and>
   cols2 (fst (snd (precompute_freqs_cis_3d 128 1024 10000))) = 21 \<and>
   at2 (fst (precompute_freqs_cis_3d 128 1024 10000)) 3 1 = cis (3 * 10000 powr (- 2 / 44))"
proof -
  have "\<forall>p<1024. \<forall>k<22. at2 (fst (precompute_freqs_cis_3d 128 1024 10000)) p k =
          cis (real p * 10000 powr (- (2 * real k) / 44))"
    and "cols2 (fst (precompute_freqs_cis_3d 128 1024 10000)) = 22"
    and "cols2 (fst (snd (precompute_freqs_cis_3d 128 1024 10000))) = 21"
    using precompute_freqs_cis_3d_entries [where d = 128 and E = 1024]
    by (simp_all add: split_beta)
  then show ?thesis by simp
qed

section \<open>Properties of the rotation\<close>

lemma bidx_lt: "i < n \<Longrightarrow> bidx n i = i"
  by (auto simp: bidx_def)

lemma bdim_same: "bdim a a = Some a"
  by (simp add: bdim_def)

lemma rope_apply_InrD:
  assumes "rope_apply x freqs n = Inr y"
  shows "n \<noteq> 0" "size2 x mod n = 0" "size0 x * size1 x * n \<noteq> 0" "even (size2 x div n)"
proof -
  have a: "\<not> (n = 0 \<or> size2 x mod n \<noteq> 0)"
    using assms unfolding rope_apply_def by (cases "n = 0 \<or> size2 x mod n \<noteq> 0") simp_all
  then have b: "\<not> (size0 x * size1 x * n = 0 \<or> odd (size2 x div n))"
    using assms unfolding rope_apply_def Let_def
    by (cases "size0 x * size1 x * n = 0 \<or> odd (size2 x div n)") simp_all
  show "n \<noteq> 0" "size2 x mod n = 0" "size0 x * size1 x * n \<noteq> 0" "even (size2 x div n)"
    using a b by simp_all
qed

lemma rope_apply_eq:
  assumes "size0 freqs = size0 x" "size1 freqs = size1 x" "size2 freqs = size2 x div n div 2"
    and "n \<noteq> 0" "size2 x mod n = 0" "size0 x * size1 x * n \<noteq> 0" "even (size2 x div n)"
  shows "rope_apply x freqs n =
      Inr \<lparr>size0 = size0 x, size1 = size1 x, size2 = n * (size2 x div n div 2 * 2),
                at3 = (\<lambda>b s j.
                      let h = j div (size2 x div n div 2 * 2);
                          r = j mod (size2 x div n div 2 * 2);
                          p = r div 2;
                          xb = bidx (size0 x) b;
                          xs = bidx (size1 x) s;
                          xp = bidx (size2 x div n div 2) p;
                          x_out = Complex (at3 x xb xs (h * (size2 x div n) + 2 * xp))
                                          (at3 x xb xs (h * (size2 x div n) + 2 * xp + 1))
                                  * at3 freqs (bidx (size0 x) b) (bidx (size1 x) s)
                                      (bidx (size2 x div n div 2) p)
                      in if even r then Re x_out else Im x_out)\<rparr>"
  using assms by (simp add: rope_apply_def Let_def bdim_same)

lemma div_mod_offset:
  fixes h q m :: nat
  assumes "q < m"
  shows "(h * m + q) div m = h" "(h * m + q) mod m = q"
  using assms by simp_all

lemma pair_index_even:
  fixes h p P :: nat
  assumes "p < P"
  shows "(h * (P * 2) + 2 * p) div (P * 2) = h" "(h * (P * 2) + 2 * p) mod (P * 2) = 2 * p"
  using assms by (simp_all add: div_mod_offset)

lemma pair_index_odd:
  fixes h p P :: nat
  assumes "p < P"
  shows "(h * (P * 2) + 2 * p + 1) div (P * 2) = h" "(h * (P * 2) + 2 * p + 1) mod (P * 2) = 2 * p + 1"
proof -
  have lt: "2 * p + 1 < P * 2" using assms by simp
  show "(h * (P * 2) + 2 * p + 1) div (P * 2) = h"
    using div_mod_offset(1)[OF lt, of h] by (simp only: add.assoc)
  show "(h * (P * 2) + 2 * p + 1) mod (P * 2) = 2 * p + 1"
    using div_mod_offset(2)[OF lt, of h] by (simp only: add.assoc)
qed

lemma split_index:
  fixes j P :: nat
  shows "(j div (P * 2)) * (P * 2) + 2 * (j mod (P * 2) div 2) + (j mod (P * 2)) mod 2 = j"
proof -
  have a: "2 * (j mod (P * 2) div 2) + (j mod (P * 2)) mod 2 = j mod (P * 2)" by simp
  have "(j div (P * 2)) * (P * 2) + j mod (P * 2) = j" by (rule div_mult_mod_eq)
  then have "(j div (P * 2)) * (P * 2) + (2 * (j mod (P * 2) div 2) + (j mod (P * 2)) mod 2) = j"
    by (simp only: a)
  then show ?thesis by (simp only: add.assoc)
qed

lemma dvd_even_eq:
  fixes D n :: nat
  assumes "D mod n = 0" "even (D div n)"
  shows "n * (D div n div 2 * 2) = D"
proof -
  have "D div n div 2 * 2 = D div n" using assms(2) by simp
  moreover have "n * (D div n) = D" using assms(1) by auto
  ultimately show ?thesis by simp
qed

lemma alg1:
  fixes a b c s :: real
  assumes "c * c + s * s = 1"
  shows "(a * c - b * s) * c - (a * s + b * c) * (- s) = a"
proof -
  have "(a * c - b * s) * c - (a * s + b * c) * (- s) = a * (c * c + s * s)" by (simp add: algebra_simps)
  then show ?thesis using assms by simp
qed

lemma alg2:
  fixes a b c s :: real
  assumes "c * c + s * s = 1"
  shows "(a * c - b * s) * (- s) + (a * s + b * c) * c = b"
proof -
  have "(a * c - b * s) * (- s) + (a * s + b * c) * c = b * (c * c + s * s)" by (simp add: algebra_simps)
  then show ?thesis using assms by simp
qed

lemma rope_apply_size:
  assumes y: "rope_apply x freqs n = Inr y"
    and sh: "size0 freqs = size0 x" "size1 freqs = size1 x" "size2 freqs = size2 x div n div 2"
  shows "size0 y = size0 x" "size1 y = size1 x" "size2 y = size2 x"
proof -
  note ok = rope_apply_InrD[OF y]
  have D: "n * (size2 x div n div 2 * 2) = size2 x"
    by (rule dvd_even_eq[OF ok(2) ok(4)])
  have "Inr y = rope_apply x freqs n" using y by simp
  then have "size0 y = size0 x \<and> size1 y = size1 x \<and> size2 y = n * (size2 x div n div 2 * 2)"
    unfolding rope_apply_eq[OF sh ok] sum.inject by simp
  then show "size0 y = size0 x" "size1 y = size1 x" "size2 y = size2 x"
    using D by simp_all
qed

lemma rope_apply_at:
  assumes y: "rope_apply x freqs n = Inr y"
    and sh: "size0 freqs = size0 x" "size1 freqs = size1 x" "size2 freqs = size2 x div n div 2"
    and P: "P = size2 x div n div 2"
    and b: "b < size0 x" and s: "s < size1 x" and p: "p < P"
  shows
    "at3 y b s (h * (P * 2) + 2 * p) =
       at3 x b s (h * (P * 2) + 2 * p) * Re (at3 freqs b s p)
       - at3 x b s (h * (P * 2) + 2 * p + 1) * Im (at3 freqs b s p)"
    "at3 y b s (h * (P * 2) + 2 * p + 1) =
       at3 x b s (h * (P * 2) + 2 * p) * Im (at3 freqs b s p)
       + at3 x b s (h * (P * 2) + 2 * p + 1) * Re (at3 freqs b s p)"
proof -
  note ok = rope_apply_InrD[OF y]
  have d2: "size2 x div n = P * 2" using ok(4) by (simp add: P)
  have yeq: "y = \<lparr>size0 = size0 x, size1 = size1 x, size2 = n * (P * 2),
                at3 = (\<lambda>b s j.
                      let h = j div (P * 2);
                          r = j mod (P * 2);
                          p = r div 2;
                          xb = bidx (size0 x) b;
                          xs = bidx (size1 x) s;
                          xp = bidx P p;
                          x_out = Complex (at3 x xb xs (h * (P * 2) + 2 * xp))
                                          (at3 x xb xs (h * (P * 2) + 2 * xp + 1))
                                  * at3 freqs (bidx (size0 x) b) (bidx (size1 x) s) (bidx P p)
                      in if even r then Re x_out else Im x_out)\<rparr>"
    using y unfolding rope_apply_eq[OF sh ok] P[symmetric] d2 by simp
  show "at3 y b s (h * (P * 2) + 2 * p) =
       at3 x b s (h * (P * 2) + 2 * p) * Re (at3 freqs b s p)
       - at3 x b s (h * (P * 2) + 2 * p + 1) * Im (at3 freqs b s p)"
    unfolding yeq using pair_index_even[OF p, of h] b s p by (simp add: bidx_lt Let_def)
  show "at3 y b s (h * (P * 2) + 2 * p + 1) =
       at3 x b s (h * (P * 2) + 2 * p) * Im (at3 freqs b s p)
       + at3 x b s (h * (P * 2) + 2 * p + 1) * Re (at3 freqs b s p)"
    unfolding yeq using pair_index_odd[OF p, of h] b s p by (simp add: bidx_lt Let_def)
qed

lemma rope_apply_defined:
  assumes y: "rope_apply x freqs n = Inr y"
    and sh: "size0 freqs = size0 x" "size1 freqs = size1 x" "size2 freqs = size2 x div n div 2"
    and sh': "size0 g = size0 x" "size1 g = size1 x" "size2 g = size2 x div n div 2"
  shows "\<exists>z. rope_apply y g n = Inr z"
proof -
  note ok = rope_apply_InrD[OF y]
  note ysz = rope_apply_size[OF y sh]
  have g: "size0 g = size0 y" "size1 g = size1 y" "size2 g = size2 y div n div 2"
    using sh' ysz by simp_all
  have ok': "n \<noteq> 0" "size2 y mod n = 0" "size0 y * size1 y * n \<noteq> 0" "even (size2 y div n)"
    using ok ysz by simp_all
  show ?thesis unfolding rope_apply_eq[OF g ok'] by blast
qed

lemma unit_sq: "cmod f = 1 \<Longrightarrow> Re f * Re f + Im f * Im f = 1"
  using cmod_power2[of f] by (simp add: power2_eq_square)

text \<open>
  C6. Every entry of a precomputed table has magnitude 1; and when \<open>rope_apply\<close> has
  rotated \<open>x\<close> by frequencies of magnitude 1 (one per position and complex pair),
  applying it again with the conjugate frequencies returns a tensor of the shape of
  \<open>x\<close> with the elements of \<open>x\<close>. The arithmetic is that of the reals.
\<close>

theorem rope_apply_round_trip:
  assumes y: "rope_apply x freqs n = Inr y"
    and sh: "size0 freqs = size0 x" "size1 freqs = size1 x" "size2 freqs = size2 x div n div 2"
    and unit: "\<forall>b<size0 freqs. \<forall>s<size1 freqs. \<forall>k<size2 freqs. cmod (at3 freqs b s k) = 1"
  shows "(\<forall>p<rows2 (precompute_freqs_cis dm e theta). \<forall>k<cols2 (precompute_freqs_cis dm e theta).
             cmod (at2 (precompute_freqs_cis dm e theta) p k) = 1) \<and>
         (\<exists>z. rope_apply y (conj_freqs freqs) n = Inr z \<and>
             size0 z = size0 x \<and> size1 z = size1 x \<and> size2 z = size2 x \<and>
             (\<forall>b<size0 x. \<forall>s<size1 x. \<forall>j<size2 x. at3 z b s j = at3 x b s j))"
proof -
  define P where "P = size2 x div n div 2"
  note ok = rope_apply_InrD[OF y]
  have D: "n * (P * 2) = size2 x"
    unfolding P_def by (rule dvd_even_eq[OF ok(2) ok(4)])
  have csh: "size0 (conj_freqs freqs) = size0 x" "size1 (conj_freqs freqs) = size1 x"
    "size2 (conj_freqs freqs) = size2 x div n div 2"
    using sh by (simp_all add: conj_freqs_def)
  obtain z where z: "rope_apply y (conj_freqs freqs) n = Inr z"
    using rope_apply_defined[OF y sh csh] by blast
  note ysz = rope_apply_size[OF y sh]
  have csh': "size0 (conj_freqs freqs) = size0 y" "size1 (conj_freqs freqs) = size1 y"
    "size2 (conj_freqs freqs) = size2 y div n div 2"
    using csh ysz by simp_all
  have Py: "P = size2 y div n div 2" using ysz by (simp add: P_def)
  have zsz: "size0 z = size0 x" "size1 z = size1 x" "size2 z = size2 x"
    using rope_apply_size[OF z csh'] ysz by simp_all
  have pt: "at3 z b s j = at3 x b s j" if b: "b < size0 x" and s: "s < size1 x" and j: "j < size2 x" for b s j
  proof -
    have Ppos: "0 < P" using j D[symmetric] by (cases P) auto
    define h where "h = j div (P * 2)"
    define r where "r = j mod (P * 2)"
    define p where "p = r div 2"
    have pP: "p < P" using Ppos by (simp add: p_def r_def less_mult_imp_div_less)
    have jsplit: "h * (P * 2) + 2 * p + r mod 2 = j"
      using split_index[of j P] by (simp add: h_def r_def p_def)
    have u: "Re (at3 freqs b s p) * Re (at3 freqs b s p) + Im (at3 freqs b s p) * Im (at3 freqs b s p) = 1"
      using unit b s pP sh by (intro unit_sq) (simp add: P_def)
    note y1 = rope_apply_at[OF y sh P_def b s pP, of h]
    have by': "b < size0 y" "s < size1 y" using b s ysz by simp_all
    note z1 = rope_apply_at[OF z csh' Py by' pP, of h]
    have cf: "Re (at3 (conj_freqs freqs) b s p) = Re (at3 freqs b s p)"
      "Im (at3 (conj_freqs freqs) b s p) = - Im (at3 freqs b s p)"
      by (simp_all add: conj_freqs_def)
    have e: "at3 z b s (h * (P * 2) + 2 * p) = at3 x b s (h * (P * 2) + 2 * p)"
      unfolding z1 y1 cf by (rule alg1[OF u])
    have o: "at3 z b s (h * (P * 2) + 2 * p + 1) = at3 x b s (h * (P * 2) + 2 * p + 1)"
      unfolding z1 y1 cf by (rule alg2[OF u])
    show ?thesis
    proof (cases "even r")
      case True
      then have "h * (P * 2) + 2 * p = j" using jsplit by simp
      then show ?thesis using e by simp
    next
      case False
      then have "h * (P * 2) + 2 * p + 1 = j" using jsplit by (simp add: odd_iff_mod_2_eq_one)
      then show ?thesis using o by simp
    qed
  qed
  show ?thesis using z zsz pt cmod_precompute by blast
qed

theorem rope_apply_round_trip_witness:
  "\<exists>y z. rope_apply \<lparr>size0 = 1, size1 = 1, size2 = 2, at3 = (\<lambda>b s j. if j = 0 then 3 else 4)\<rparr>
            \<lparr>size0 = 1, size1 = 1, size2 = 1,
             at3 = (\<lambda>b s k. at2 (precompute_freqs_cis 2 1024 10000) 1 0)\<rparr> 1 = Inr y \<and>
         rope_apply y (conj_freqs \<lparr>size0 = 1, size1 = 1, size2 = 1,
             at3 = (\<lambda>b s k. at2 (precompute_freqs_cis 2 1024 10000) 1 0)\<rparr>) 1 = Inr z \<and>
         size2 z = 2 \<and> at3 z 0 0 0 = 3 \<and> at3 z 0 0 1 = 4"
proof -
  define X :: "real tensor3" where
    "X = \<lparr>size0 = 1, size1 = 1, size2 = 2, at3 = (\<lambda>b s j. if j = 0 then 3 else 4)\<rparr>"
  define F :: "complex tensor3" where
    "F = \<lparr>size0 = 1, size1 = 1, size2 = 1,
          at3 = (\<lambda>b s k. at2 (precompute_freqs_cis 2 1024 10000) 1 0)\<rparr>"
  obtain y where y: "rope_apply X F 1 = Inr y"
    by (simp add: rope_apply_def bdim_def Let_def X_def F_def)
  have sh: "size0 F = size0 X" "size1 F = size1 X" "size2 F = size2 X div 1 div 2"
    by (simp_all add: X_def F_def)
  have unit: "\<forall>b<size0 F. \<forall>s<size1 F. \<forall>k<size2 F. cmod (at3 F b s k) = 1"
    by (simp add: F_def cmod_precompute)
  from rope_apply_round_trip[OF y sh unit] obtain z where
    z: "rope_apply y (conj_freqs F) 1 = Inr z" "size2 z = size2 X"
      "\<forall>b<size0 X. \<forall>s<size1 X. \<forall>j<size2 X. at3 z b s j = at3 X b s j"
    by blast
  have "at3 z 0 0 0 = 3" "at3 z 0 0 1 = 4" "size2 z = 2"
    using z(2,3) by (simp_all add: X_def)
  then show ?thesis using y z(1) unfolding X_def F_def by blast
qed

section \<open>Properties of the mixture of experts\<close>

lemma and_then_Inr_iff: "and_then r f = Inr v \<longleftrightarrow> (\<exists>u. r = Inr u \<and> f u = Inr v)"
  by (cases r) (simp_all add: and_then_def)

lemma and_then_Inl: "and_then (Inl e) f = Inl e"
  by (simp add: and_then_def)

lemma and_then_Inr: "and_then (Inr v) f = f v"
  by (simp add: and_then_def)

lemma sequence_Inr_iff:
  "sequence rs = Inr vs \<longleftrightarrow> length vs = length rs \<and> (\<forall>i<length rs. rs ! i = Inr (vs ! i))"
proof (induction rs arbitrary: vs)
  case Nil
  then show ?case by auto
next
  case (Cons r rs)
  show ?case
  proof (cases r)
    case (Inl e)
    then show ?thesis by (cases vs) auto
  next
    case (Inr v)
    show ?thesis
    proof (cases "sequence rs")
      case (Inl e)
      then have "\<not> (\<exists>ws. length ws = length rs \<and> (\<forall>i<length rs. rs ! i = Inr (ws ! i)))"
        using Cons.IH by auto
      then have "\<not> (length vs = length (r # rs) \<and> (\<forall>i<length (r # rs). (r # rs) ! i = Inr (vs ! i)))"
      proof (cases vs)
        case Nil then show ?thesis by simp
      next
        case (Cons w ws)
        assume n: "\<not> (\<exists>ws. length ws = length rs \<and> (\<forall>i<length rs. rs ! i = Inr (ws ! i)))"
        show ?thesis
        proof
          assume a: "length vs = length (r # rs) \<and> (\<forall>i<length (r # rs). (r # rs) ! i = Inr (vs ! i))"
          then have "length ws = length rs" using Cons by simp
          moreover have "\<forall>i<length rs. rs ! i = Inr (ws ! i)"
          proof (intro allI impI)
            fix i assume "i < length rs"
            then have "(r # rs) ! Suc i = Inr (vs ! Suc i)" using a by auto
            then show "rs ! i = Inr (ws ! i)" using Cons by simp
          qed
          ultimately show False using n by blast
        qed
      qed
      then show ?thesis using Inl \<open>r = Inr v\<close> by simp
    next
      case (Inr ws)
      then have ws: "length ws = length rs" "\<forall>i<length rs. rs ! i = Inr (ws ! i)"
        using Cons.IH[of ws] by auto
      have "sequence (r # rs) = Inr (v # ws)" using Inr \<open>r = Inr v\<close> by simp
      moreover have "(v # ws = vs) \<longleftrightarrow> (length vs = length (r # rs) \<and> (\<forall>i<length (r # rs). (r # rs) ! i = Inr (vs ! i)))"
      proof
        assume "v # ws = vs"
        then show "length vs = length (r # rs) \<and> (\<forall>i<length (r # rs). (r # rs) ! i = Inr (vs ! i))"
          using ws \<open>r = Inr v\<close> by (auto simp: nth_Cons split: nat.splits)
      next
        assume a: "length vs = length (r # rs) \<and> (\<forall>i<length (r # rs). (r # rs) ! i = Inr (vs ! i))"
        then obtain w ws' where vs: "vs = w # ws'" by (cases vs) auto
        have "w = v" using a vs \<open>r = Inr v\<close> by auto
        moreover have "ws' = ws"
        proof (rule nth_equalityI)
          show "length ws' = length ws" using a vs ws by simp
          fix i assume "i < length ws'"
          then have i: "i < length rs" using a vs by simp
          then have "(r # rs) ! Suc i = Inr (vs ! Suc i)" using a by auto
          then show "ws' ! i = ws ! i" using vs ws i by simp
        qed
        ultimately show "v # ws = vs" using vs by simp
      qed
      ultimately show ?thesis by simp
    qed
  qed
qed

lemma and_then_Inr_right: "and_then r Inr = r"
  by (cases r) (simp_all add: and_then_def)

lemma sequence_map_Inr_iff:
  "sequence (map f xs) = Inr vs \<longleftrightarrow> length vs = length xs \<and> (\<forall>i<length xs. f (xs ! i) = Inr (vs ! i))"
  by (simp add: sequence_Inr_iff)

lemma MultiModalMoE_forward_InrD:
  assumes "MultiModalMoE_forward self x w idx mt = Inr (out, stats)"
  shows "size2 x = unified_dim self" "experts self \<noteq> []"
    "collect_expert_statistics self w idx mt (dict_get (modality_to_expert self) mt 0) = Inr stats"
    "\<exists>eo. sequence (map (\<lambda>expert. linear_forward expert x) (experts self)) = Inr eo \<and>
          list_all (\<lambda>t. size2 t = size2 (hd eo)) eo \<and>
          moe_rounds eo w idx (full (size0 x) (size1 x) (output_dim self) 0) [0..<top_k self] = Inr out"
proof -
  have a: "size2 x = unified_dim self \<and> experts self \<noteq> []"
    using assms unfolding MultiModalMoE_forward_def by (auto split: if_splits)
  then show "size2 x = unified_dim self" "experts self \<noteq> []" by simp_all
  from assms a obtain st eo where
    st: "collect_expert_statistics self w idx mt (dict_get (modality_to_expert self) mt 0) = Inr st"
    and eo: "sequence (map (\<lambda>expert. linear_forward expert x) (experts self)) = Inr eo"
    and rest: "(if \<not> list_all (\<lambda>t. size2 t = size2 (hd eo)) eo then Inl RuntimeError
        else and_then (moe_rounds eo w idx (full (size0 x) (size1 x) (output_dim self) 0) [0..<top_k self])
          (\<lambda>output. Inr (output, st))) = Inr (out, stats)"
    unfolding MultiModalMoE_forward_def Let_def by (auto simp: and_then_Inr_iff)
  from rest have la: "list_all (\<lambda>t. size2 t = size2 (hd eo)) eo"
    and r: "and_then (moe_rounds eo w idx (full (size0 x) (size1 x) (output_dim self) 0) [0..<top_k self])
          (\<lambda>output. Inr (output, st)) = Inr (out, stats)"
    by (auto split: if_splits)
  from r have "moe_rounds eo w idx (full (size0 x) (size1 x) (output_dim self) 0) [0..<top_k self] = Inr out"
    and "st = stats"
    by (auto simp: and_then_Inr_iff)
  then show "collect_expert_statistics self w idx mt (dict_get (modality_to_expert self) mt 0) = Inr stats"
    and "\<exists>eo. sequence (map (\<lambda>expert. linear_forward expert x) (experts self)) = Inr eo \<and>
          list_all (\<lambda>t. size2 t = size2 (hd eo)) eo \<and>
          moe_rounds eo w idx (full (size0 x) (size1 x) (output_dim self) 0) [0..<top_k self] = Inr out"
    using st eo la by auto
qed


lemma bidx_one: "bidx 1 i = 0"
  by (simp add: bidx_def)


lemma bdim_one_left: "bdim 1 a = Some a" "bdim (Suc 0) a = Some a"
  by (simp_all add: bdim_def)

lemma bidx_Suc0: "bidx (Suc 0) i = 0"
  by (simp add: bidx_def)

lemma moe_round_top1:
  assumes r: "moe_round eo w idx z 0 = Inr out"
    and z: "z = full B S O' 0"
    and sh: "size0 w = B" "size1 w = S" "size2 w = 1" "size0 idx = B" "size1 idx = S"
    and eo: "size2 (hd eo) = O'"
    and ones: "\<forall>b<B. \<forall>s<S. at3 w b s 0 = 1 \<and> at3 idx b s 0 = int e"
  shows "size0 out = B" "size1 out = S" "size2 out = O'"
    "\<forall>b<B. \<forall>s<S. \<forall>j<O'. at3 out b s j = at3 (eo ! e) b s j"
proof -
  define weight where "weight = \<lparr>size0 = B, size1 = S, size2 = 1, at3 = (\<lambda>b s j. at3 w b s (0 + j))\<rparr>"
  define expert_output where "expert_output = \<lparr>size0 = B, size1 = S, size2 = O',
     at3 = (\<lambda>b s out. at3 (eo ! nat (at3 idx b s 0)) b s out)\<rparr>"
  have r': "and_then (mul3 weight expert_output) (\<lambda>weighted. iadd3 z weighted) = Inr out"
    using r unfolding moe_round_def Let_def weight_def expert_output_def
    by (simp add: sh eo split: if_splits)
  define weighted where "weighted = \<lparr>size0 = B, size1 = S, size2 = O',
               at3 = (\<lambda>i j k. at3 weight (bidx B i) (bidx S j) (bidx 1 k)
                               * at3 expert_output (bidx B i) (bidx S j) (bidx O' k))\<rparr>"
  have m: "mul3 weight expert_output = Inr weighted"
    by (simp add: mul3_def weight_def expert_output_def weighted_def bdim_same bdim_one_left)
  have out: "out = z\<lparr>at3 := (\<lambda>i j k. at3 z i j k + at3 weighted (bidx B i) (bidx S j) (bidx O' k))\<rparr>"
    using r' unfolding m and_then_Inr by (simp add: iadd3_def z full_def weighted_def)
  show "size0 out = B" "size1 out = S" "size2 out = O'"
    by (simp_all add: out z full_def)
  show "\<forall>b<B. \<forall>s<S. \<forall>j<O'. at3 out b s j = at3 (eo ! e) b s j"
  proof (intro allI impI)
    fix b s j assume b: "b < B" and s: "s < S" and j: "j < O'"
    have "at3 out b s j = at3 weighted b s j"
      by (simp add: out z full_def bidx_lt b s j)
    also have "\<dots> = at3 w b s 0 * at3 (eo ! nat (at3 idx b s 0)) b s j"
      by (simp add: weighted_def weight_def expert_output_def bidx_lt bidx_one bidx_Suc0 b s j)
    also have "\<dots> = at3 (eo ! e) b s j" using ones b s by simp
    finally show "at3 out b s j = at3 (eo ! e) b s j" .
  qed
qed

lemma moe_forward_output_independent:
  assumes "MultiModalMoE_forward self x w idx mt1 = Inr (out1, stats1)"
    and "MultiModalMoE_forward self x w idx mt2 = Inr (out2, stats2)"
  shows "out1 = out2"
  using MultiModalMoE_forward_InrD(4)[OF assms(1)] MultiModalMoE_forward_InrD(4)[OF assms(2)]
  by auto

lemma moe_round_no_slot: "size2 idx \<le> k \<Longrightarrow> moe_round eo w idx out k = Inl IndexError"
  by (simp add: moe_round_def)

lemma moe_rounds_no_slot:
  "k \<in> set ks \<Longrightarrow> size2 idx \<le> k \<Longrightarrow> \<exists>e. moe_rounds eo w idx out ks = Inl e"
proof (induction ks arbitrary: out)
  case Nil
  then show ?case by simp
next
  case (Cons k' ks)
  show ?case
  proof (cases "moe_round eo w idx out k'")
    case (Inl e)
    then show ?thesis by (simp add: and_then_def)
  next
    case (Inr out')
    then have "k' \<noteq> k" using Cons.prems(2) moe_round_no_slot[of idx k eo w out] by auto
    then have "k \<in> set ks" using Cons.prems(1) by simp
    from Cons.IH[OF this Cons.prems(2), of out'] show ?thesis using Inr by (simp add: and_then_def)
  qed
qed

lemma moe_forward_no_slot:
  assumes "size2 idx < top_k self"
  shows "\<exists>e. MultiModalMoE_forward self x w idx mt = Inl e"
proof (cases "MultiModalMoE_forward self x w idx mt")
  case (Inl e)
  then show ?thesis by blast
next
  case (Inr r)
  obtain out stats where r: "r = (out, stats)" by (cases r)
  from MultiModalMoE_forward_InrD(4)[OF Inr[unfolded r]] obtain eo where
    "moe_rounds eo w idx (full (size0 x) (size1 x) (output_dim self) 0) [0..<top_k self] = Inr out"
    by blast
  moreover have "size2 idx \<in> set [0..<top_k self]" using assms by simp
  then have "\<exists>e. moe_rounds eo w idx (full (size0 x) (size1 x) (output_dim self) 0)
                   [0..<top_k self] = Inl e"
    by (rule moe_rounds_no_slot) simp
  ultimately show ?thesis by simp
qed

lemma moe_rounds_second_slot:
  assumes "size2 idx = 1" "2 \<le> K" "moe_round eo w idx out 0 = Inr out'"
  shows "moe_rounds eo w idx out [0..<K] = Inl IndexError"
proof -
  have "[0..<K] = 0 # Suc 0 # [Suc (Suc 0)..<K]"
    using assms(2) by (simp add: upt_rec[of 0] upt_rec[of "Suc 0"])
  then show ?thesis using assms(1,3) moe_round_no_slot[of idx "Suc 0" eo w out']
    by (simp add: and_then_def)
qed

lemma moe_round0_ok:
  assumes sh: "size0 w = B" "size1 w = S" "size2 w = 1" "size0 idx = B" "size1 idx = S" "size2 idx = 1"
    and hd: "size2 (hd eo) = O'"
    and rng: "\<forall>b<B. \<forall>s<S. 0 \<le> at3 idx b s 0 \<and> at3 idx b s 0 < int (length eo)"
  shows "\<exists>out. moe_round eo w idx (full B S O' 0) 0 = Inr out"
proof -
  have "\<not> (\<exists>b \<in> set [0..<B]. \<exists>s \<in> set [0..<S]. at3 idx b s 0 < 0 \<or> int (length eo) \<le> at3 idx b s 0)"
  proof
    assume "\<exists>b \<in> set [0..<B]. \<exists>s \<in> set [0..<S]. at3 idx b s 0 < 0 \<or> int (length eo) \<le> at3 idx b s 0"
    then obtain b s where "b < B" "s < S" "at3 idx b s 0 < 0 \<or> int (length eo) \<le> at3 idx b s 0"
      by auto
    moreover have "0 \<le> at3 idx b s 0 \<and> at3 idx b s 0 < int (length eo)"
      using rng \<open>b < B\<close> \<open>s < S\<close> by blast
    ultimately show False by linarith
  qed
  then show ?thesis
    unfolding moe_round_def Let_def
    by (simp add: sh hd full_def mul3_def bdim_same bdim_one_left iadd3_def and_then_def)
qed

lemma stats_ok:
  assumes "size0 idx = size0 w" "size1 idx = size1 w" "size2 idx = size2 w" "target < num_experts self"
  shows "\<exists>st. collect_expert_statistics self w idx mt target = Inr st"
  using assms by (simp add: collect_expert_statistics_def Let_def)

lemma sequence_map_ok:
  assumes "\<forall>x \<in> set xs. \<exists>v. f x = Inr v"
  shows "\<exists>vs. sequence (map f xs) = Inr vs"
  using assms
proof (induction xs)
  case Nil
  then show ?case by simp
next
  case (Cons a xs)
  then obtain v vs where "f a = Inr v" "sequence (map f xs) = Inr vs" by auto
  then show ?case by simp
qed

lemma experts_init:
  "experts (MultiModalMoE_init init ix u od n k) =
     map (\<lambda>e. mk_linear init ''experts'' (ix @ [e]) u (output_dim (MultiModalMoE_init init ix u od n k))) [0..<n]"
  "top_k (MultiModalMoE_init init ix u od n k) = k"
  "num_experts (MultiModalMoE_init init ix u od n k) = n"
  "unified_dim (MultiModalMoE_init init ix u od n k) = u"
  by (simp_all add: MultiModalMoE_init_def Let_def)

lemma linear_forward_size2:
  "linear_forward l x = Inr y \<Longrightarrow> size2 y = out_features l \<and> size0 y = size0 x \<and> size1 y = size1 x"
  by (auto simp: linear_forward_def split: if_splits)

text \<open>
  C5. For a mixture built with \<open>top_k = 1\<close>, weights all 1 and indices all \<open>e\<close> (both
  of last extent 1): whenever \<open>forward\<close> returns, its output has the shape and the
  elements of expert \<open>e\<close>'s linear layer applied to \<open>x\<close>. The arithmetic is that of the
  reals, where the casts are the identity.
\<close>

theorem moe_top1_is_expert_output:
  assumes self: "self = MultiModalMoE_init init ix u od n 1"
    and fw: "MultiModalMoE_forward self x expert_weights top_k_indices modality_type = Inr (out, stats)"
    and shw: "size0 expert_weights = size0 x" "size1 expert_weights = size1 x" "size2 expert_weights = 1"
    and shi: "size0 top_k_indices = size0 x" "size1 top_k_indices = size1 x" "size2 top_k_indices = 1"
    and ones: "\<forall>b<size0 x. \<forall>s<size1 x.
                 at3 expert_weights b s 0 = 1 \<and> at3 top_k_indices b s 0 = int e"
    and e: "e < n"
  shows "\<exists>direct. linear_forward (experts self ! e) x = Inr direct \<and>
           size0 out = size0 direct \<and> size1 out = size1 direct \<and> size2 out = size2 direct \<and>
           (\<forall>b<size0 out. \<forall>s<size1 out. \<forall>j<size2 out. at3 out b s j = at3 direct b s j)"
proof -
  from MultiModalMoE_forward_InrD(4)[OF fw] obtain eo where
    eo: "sequence (map (\<lambda>expert. linear_forward expert x) (experts self)) = Inr eo"
    and rounds: "moe_rounds eo expert_weights top_k_indices
                   (full (size0 x) (size1 x) (output_dim self) 0) [0..<top_k self] = Inr out"
    by blast
  have len: "length (experts self) = n" by (simp add: self experts_init)
  have eoi: "length eo = n" "\<forall>i<n. linear_forward (experts self ! i) x = Inr (eo ! i)"
    using eo len by (simp_all add: sequence_map_Inr_iff)
  have direct: "linear_forward (experts self ! e) x = Inr (eo ! e)" using eoi e by simp
  have of: "\<forall>i<n. out_features (experts self ! i) = output_dim self"
    by (simp add: self experts_init mk_linear_def)
  have sz: "\<forall>i<n. size2 (eo ! i) = output_dim self \<and> size0 (eo ! i) = size0 x \<and> size1 (eo ! i) = size1 x"
    using eoi of linear_forward_size2 by metis
  have "0 < n" using e by simp
  then have hd: "size2 (hd eo) = output_dim self"
    using sz eoi(1) by (cases eo) auto
  have r: "moe_round eo expert_weights top_k_indices (full (size0 x) (size1 x) (output_dim self) 0) 0 = Inr out"
    using rounds by (simp add: self experts_init and_then_Inr_right)
  note t = moe_round_top1[OF r refl shw shi(1,2) hd ones]
  show ?thesis
  proof (intro exI conjI)
    show "linear_forward (experts self ! e) x = Inr (eo ! e)" by (rule direct)
    show "size0 out = size0 (eo ! e)" "size1 out = size1 (eo ! e)" "size2 out = size2 (eo ! e)"
      using t(1-3) sz e by simp_all
    show "\<forall>b<size0 out. \<forall>s<size1 out. \<forall>j<size2 out. at3 out b s j = at3 (eo ! e) b s j"
      using t by simp
  qed
qed

theorem moe_top1_is_expert_output_witness:
  "\<exists>out stats direct.
     MultiModalMoE_forward (MultiModalMoE_init (\<lambda>name ix. 1) [] 1 (Some 1) 2 1)
       (full 1 1 1 2) (full 1 1 1 1) (full 1 1 1 1) ''nuscenes'' = Inr (out, stats) \<and>
     linear_forward (experts (MultiModalMoE_init (\<lambda>name ix. 1) [] 1 (Some 1) 2 1) ! 1)
       (full 1 1 1 2) = Inr direct \<and>
     size2 out = 1 \<and> at3 direct 0 0 0 = 3 \<and> at3 out 0 0 0 = 3"
proof -
  define M where "M = MultiModalMoE_init (\<lambda>name ix. 1) [] 1 (Some 1) 2 1"
  define X :: "real tensor3" where "X = full 1 1 1 2"
  define W :: "real tensor3" where "W = full 1 1 1 1"
  define I :: "int tensor3" where "I = full 1 1 1 1"
  obtain out stats where fw: "MultiModalMoE_forward M X W I ''nuscenes'' = Inr (out, stats)"
    unfolding M_def X_def W_def I_def
    by (simp add: MultiModalMoE_forward_def collect_expert_statistics_def
        MultiModalMoE_init_def full_def Let_def positions_def dict_get_def and_then_def
        linear_forward_def mk_linear_def moe_round_def mul3_def iadd3_def bdim_def bidx_def
        eval_nat_numeral)
  have shw: "size0 W = size0 X" "size1 W = size1 X" "size2 W = 1"
    and shi: "size0 I = size0 X" "size1 I = size1 X" "size2 I = 1"
    and ones: "\<forall>b<size0 X. \<forall>s<size1 X. at3 W b s 0 = 1 \<and> at3 I b s 0 = int 1"
    by (simp_all add: X_def W_def I_def full_def)
  have e: "(1::nat) < 2" by simp
  from moe_top1_is_expert_output[OF M_def fw shw shi ones e] obtain direct where
    d: "linear_forward (experts M ! 1) X = Inr direct" "size2 out = size2 direct"
      "size0 out = size0 direct" "size1 out = size1 direct"
      "\<forall>b<size0 out. \<forall>s<size1 out. \<forall>j<size2 out. at3 out b s j = at3 direct b s j"
    by blast
  have dv: "size0 direct = 1" "size1 direct = 1" "size2 direct = 1" "at3 direct 0 0 0 = 3"
    using d(1) unfolding M_def X_def
    by (auto simp: MultiModalMoE_init_def linear_forward_def mk_linear_def full_def Let_def
        eval_nat_numeral)
  have "at3 out 0 0 0 = 3" "size2 out = 1" using d(2-5) dv by simp_all
  then show ?thesis using fw d(1) dv(4) unfolding M_def X_def W_def I_def by blast
qed

text \<open>
  C8. With two experts the labels \<open>sekai\<close> and \<open>openx\<close> do not give the same outcome
  on one input: the target expert of \<open>openx\<close> is 2, which the statistics look up among
  two ratios, so that call raises and has no output, while the other returns.
\<close>

theorem moe_label_changes_outcome:
  "MultiModalMoE_forward (MultiModalMoE_init (\<lambda>name ix. 1) [] 1 (Some 1) 2 1)
     (full 1 1 1 2) (full 1 1 1 1) (full 1 1 1 0) ''openx'' = Inl IndexError \<and>
   (\<exists>out stats.
      MultiModalMoE_forward (MultiModalMoE_init (\<lambda>name ix. 1) [] 1 (Some 1) 2 1)
        (full 1 1 1 2) (full 1 1 1 1) (full 1 1 1 0) ''sekai'' = Inr (out, stats))"
  by (simp add: MultiModalMoE_forward_def collect_expert_statistics_def
      MultiModalMoE_init_def full_def Let_def positions_def dict_get_def and_then_def
      linear_forward_def mk_linear_def moe_round_def mul3_def iadd3_def bdim_def bidx_def
      eval_nat_numeral)

section \<open>Properties of the router\<close>

lemma WanModelMoe_init_router:
  assumes "WanModelMoe_init init dm in_dim ffn_dim out_dim text_dim fd ps nh nl hii um mc = Inr self"
  shows "top_k_attr self = Some 1"
    "router_modality_to_expert self =
       [(''sekai'', 0), (''nuscenes'', 1), (''openx'', 2), (''unknown'', 0)]"
    "blocks self = map (\<lambda>layer. DiTBlockWithMoE_init init layer dm um mc) [0..<nl]"
  using assms by (auto simp: WanModelMoe_init_def split: if_splits)


text \<open>
  C3. For a constructed model, every input tensor and every label, the router returns
  weights all 1 and indices all equal to the expert of the label (\<open>sekai\<close> 0,
  \<open>nuscenes\<close> 1, \<open>openx\<close> 2, every other label 0), of the shape
  \<open>[batch, seq, 1]\<close>, and the loss 0; two inputs of one shape get the same decision.
\<close>

theorem router_decision_policy:
  assumes "WanModelMoe_init init dm in_dim ffn_dim out_dim text_dim fd ps nh nl hii um mc = Inr self"
  shows "compute_router_decisions self x label =
           (full (size0 x) (size1 x) 1 1,
            full (size0 x) (size1 x) 1
              (if label = ''sekai'' then 0 else if label = ''nuscenes'' then 1
               else if label = ''openx'' then 2 else 0),
            0) \<and>
         (size0 y = size0 x \<and> size1 y = size1 x \<longrightarrow>
            compute_router_decisions self y label = compute_router_decisions self x label)"
  using WanModelMoe_init_router(1,2)[OF assms]
  by (simp add: compute_router_decisions_def Let_def dict_get_def)

theorem router_decision_policy_witness:
  "\<exists>self. WanModelMoe_init (\<lambda>name ix. 0) 64 16 128 16 4096 256 (1, 2, 2) 4 1 False True
             (Some [(''num_experts'', 4), (''top_k'', 1), (''unified_dim'', 8)]) = Inr self \<and>
          size0 (full 1 5 8 (7::real)) = size0 (full 1 5 8 (0::real)) \<and>
          size1 (full 1 5 8 (7::real)) = size1 (full 1 5 8 (0::real)) \<and>
          compute_router_decisions self (full 1 5 8 (0::real)) ''nuscenes'' =
            (full 1 5 1 1, full 1 5 1 1, 0) \<and>
          compute_router_decisions self (full 1 5 8 (7::real)) ''nuscenes'' =
            compute_router_decisions self (full 1 5 8 (0::real)) ''nuscenes''"
proof -
  obtain self where
    init: "WanModelMoe_init (\<lambda>name ix. 0) 64 16 128 16 4096 256 (1, 2, 2) 4 1 False True
             (Some [(''num_experts'', 4), (''top_k'', 1), (''unified_dim'', 8)]) = Inr self"
    by (simp add: WanModelMoe_init_def)
  have sh: "size0 (full 1 5 8 (7::real)) = size0 (full 1 5 8 (0::real)) \<and>
          size1 (full 1 5 8 (7::real)) = size1 (full 1 5 8 (0::real))"
    by (simp add: full_def)
  from router_decision_policy[OF init, of "full 1 5 8 (0::real)" "''nuscenes''" "full 1 5 8 (7::real)"] sh
  have "compute_router_decisions self (full 1 5 8 (0::real)) ''nuscenes'' =
            (full 1 5 1 1, full 1 5 1 1, 0)"
    and "compute_router_decisions self (full 1 5 8 (7::real)) ''nuscenes'' =
            compute_router_decisions self (full 1 5 8 (0::real)) ''nuscenes''"
    by (simp_all add: full_def)
  then show ?thesis using init sh by blast
qed

lemma DiTBlockWithMoE_init_moe:
  assumes "cfg \<noteq> []"
  shows "moe (DiTBlockWithMoE_init init layer dm True (Some cfg)) =
           Some (MultiModalMoE_init init [layer] (dict_get cfg ''unified_dim'' 30) (Some dm)
                   (dict_get cfg ''num_experts'' 4) (dict_get cfg ''top_k'' 2))"
  using assms by (simp add: DiTBlockWithMoE_init_def)

lemma moe_forward_second_slot:
  assumes m: "m = MultiModalMoE_init init ix u od n K" and K: "2 \<le> K"
    and sh: "size0 w = size0 x" "size1 w = size1 x" "size2 w = 1"
            "size0 idx = size0 x" "size1 idx = size1 x" "size2 idx = 1"
    and x: "size2 x = u"
    and tgt: "dict_get (modality_to_expert m) mt 0 < n"
    and rng: "\<forall>b<size0 x. \<forall>s<size1 x. 0 \<le> at3 idx b s 0 \<and> at3 idx b s 0 < int n"
  shows "MultiModalMoE_forward m x w idx mt = Inl IndexError"
proof -
  have n: "0 < n" using tgt by simp
  have ex: "experts m \<noteq> []" "length (experts m) = n" using n by (simp_all add: m experts_init)
  obtain st where st: "collect_expert_statistics m w idx mt (dict_get (modality_to_expert m) mt 0) = Inr st"
    using stats_ok[of idx w "dict_get (modality_to_expert m) mt 0" m mt] sh tgt
    by (auto simp: m experts_init)
  have "\<forall>l \<in> set (experts m). \<exists>v. linear_forward l x = Inr v"
    by (auto simp: m experts_init mk_linear_def linear_forward_def x)
  then obtain eo where eo: "sequence (map (\<lambda>expert. linear_forward expert x) (experts m)) = Inr eo"
    using sequence_map_ok[of "experts m" "\<lambda>expert. linear_forward expert x"] by auto
  have eoi: "length eo = n" "\<forall>i<n. linear_forward (experts m ! i) x = Inr (eo ! i)"
    using eo ex(2) by (simp_all add: sequence_map_Inr_iff)
  have of: "\<forall>i<n. out_features (experts m ! i) = output_dim m"
    by (simp add: m experts_init mk_linear_def)
  have sz: "\<forall>i<n. size2 (eo ! i) = output_dim m"
    using eoi of linear_forward_size2 by metis
  have la: "list_all (\<lambda>t. size2 t = output_dim m) eo"
    using sz eoi(1) by (auto simp: list_all_length)
  have hd: "size2 (hd eo) = output_dim m" using sz eoi(1) n by (cases eo) auto
  have rng': "\<forall>b<size0 x. \<forall>s<size1 x. 0 \<le> at3 idx b s 0 \<and> at3 idx b s 0 < int (length eo)"
    using rng eoi(1) by simp
  obtain out' where "moe_round eo w idx (full (size0 x) (size1 x) (output_dim m) 0) 0 = Inr out'"
    using moe_round0_ok[OF sh hd rng'] by blast
  then have "moe_rounds eo w idx (full (size0 x) (size1 x) (output_dim m) 0) [0..<top_k m]
               = Inl IndexError"
    using moe_rounds_second_slot[OF sh(6), of K eo w] K by (simp add: m experts_init)
  then show ?thesis
    unfolding MultiModalMoE_forward_def Let_def
    using st eo la hd ex(1) x by (simp add: and_then_def m experts_init)
qed

text \<open>
  C10. The constructor sets the router's \<open>top_k\<close> to 1 whatever \<open>moe_config\<close> says, so
  the router's weights and indices have a last axis of extent 1. A block of a model
  constructed with a \<open>moe_config\<close> whose \<open>top_k\<close> (2 when absent) is at least 2 has a
  mixture with that \<open>top_k\<close>, and its \<open>forward\<close> on the router's decision raises on
  every input; on an input of the router's batch and sequence extents and of the unified
  dimension, with the label's expert among the experts, it raises the \<open>IndexError\<close> of
  slot 1.
\<close>

theorem router_top_k_mismatch:
  assumes init: "WanModelMoe_init init dm in_dim ffn_dim out_dim text_dim fd ps nh nl hii True
                   (Some cfg) = Inr self"
    and cfg: "cfg \<noteq> []" "2 \<le> dict_get cfg ''top_k'' 2"
    and layer: "layer < nl"
    and rd: "compute_router_decisions self c label = (rw, ri, loss)"
  shows "top_k_attr self = Some 1 \<and> size2 rw = 1 \<and> size2 ri = 1 \<and>
         (\<exists>m. moe (blocks self ! layer) = Some m \<and> top_k m = dict_get cfg ''top_k'' 2 \<and>
            (\<forall>x mt. \<exists>e. MultiModalMoE_forward m x rw ri mt = Inl e) \<and>
            (\<forall>x. size2 x = unified_dim m \<and> size0 x = size0 c \<and> size1 x = size1 c \<and>
                  dict_get (modality_to_expert m) label 0 < num_experts m \<longrightarrow>
                  MultiModalMoE_forward m x rw ri label = Inl IndexError))"
proof -
  note r = WanModelMoe_init_router[OF init]
  define m where "m = MultiModalMoE_init init [layer] (dict_get cfg ''unified_dim'' 30) (Some dm)
                   (dict_get cfg ''num_experts'' 4) (dict_get cfg ''top_k'' 2)"
  have blk: "moe (blocks self ! layer) = Some m"
    using layer DiTBlockWithMoE_init_moe[OF cfg(1)] by (simp add: r(3) m_def)
  have rw: "rw = full (size0 c) (size1 c) 1 1"
    and ri: "ri = full (size0 c) (size1 c) 1 (int (dict_get (router_modality_to_expert self) label 0))"
    using rd r(1) by (simp_all add: compute_router_decisions_def Let_def)
  have s2: "size2 rw = 1" "size2 ri = 1" by (simp_all add: rw ri full_def)
  have tk: "top_k m = dict_get cfg ''top_k'' 2" by (simp add: m_def experts_init)
  have all: "\<exists>e. MultiModalMoE_forward m x rw ri mt = Inl e" for x mt
    by (rule moe_forward_no_slot) (use s2 tk cfg(2) in simp)
  have same_map: "modality_to_expert m = router_modality_to_expert self"
    by (simp add: m_def MultiModalMoE_init_def Let_def r(2))
  have idx: "MultiModalMoE_forward m x rw ri label = Inl IndexError"
    if x: "size2 x = unified_dim m" "size0 x = size0 c" "size1 x = size1 c"
      and t: "dict_get (modality_to_expert m) label 0 < num_experts m" for x
  proof (rule moe_forward_second_slot[OF m_def cfg(2)])
    show "size0 rw = size0 x" "size1 rw = size1 x" "size2 rw = 1"
      "size0 ri = size0 x" "size1 ri = size1 x" "size2 ri = 1"
      using x by (simp_all add: rw ri full_def)
    show "size2 x = dict_get cfg ''unified_dim'' 30" using x(1) by (simp add: m_def experts_init)
    show "dict_get (modality_to_expert m) label 0 < dict_get cfg ''num_experts'' 4"
      using t by (simp add: m_def experts_init)
    show "\<forall>b<size0 x. \<forall>s<size1 x. 0 \<le> at3 ri b s 0 \<and> at3 ri b s 0 < int (dict_get cfg ''num_experts'' 4)"
      using t same_map by (simp add: ri full_def m_def experts_init)
  qed
  show ?thesis using r(1) s2 blk tk all idx by blast
qed

theorem router_top_k_mismatch_witness:
  "\<exists>self m rw ri loss.
     WanModelMoe_init (\<lambda>name ix. 0) 64 16 128 16 4096 256 (1, 2, 2) 4 1 False True
       (Some [(''num_experts'', 4), (''top_k'', 2), (''unified_dim'', 8)]) = Inr self \<and>
     compute_router_decisions self (full 1 5 8 (0::real)) ''nuscenes'' = (rw, ri, loss) \<and>
     size2 ri = 1 \<and> moe (blocks self ! 0) = Some m \<and> top_k m = 2 \<and>
     MultiModalMoE_forward m (full 1 5 8 0) rw ri ''nuscenes'' = Inl IndexError"
proof -
  define cfg where "cfg = [(''num_experts'', 4::nat), (''top_k'', 2), (''unified_dim'', 8)]"
  obtain self where
    init: "WanModelMoe_init (\<lambda>name ix. 0) 64 16 128 16 4096 256 (1, 2, 2) 4 1 False True
             (Some cfg) = Inr self"
    by (simp add: WanModelMoe_init_def)
  have cfg: "cfg \<noteq> []" "2 \<le> dict_get cfg ''top_k'' 2"
    by (simp_all add: cfg_def dict_get_def)
  have layer: "(0::nat) < 1" by simp
  obtain rw ri loss where
    rd: "compute_router_decisions self (full 1 5 8 (0::real)) ''nuscenes'' = (rw, ri, loss)"
    by (cases "compute_router_decisions self (full 1 5 8 (0::real)) ''nuscenes''")
  from router_top_k_mismatch[OF init cfg layer rd] obtain m where
    m: "size2 ri = 1" "moe (blocks self ! 0) = Some m" "top_k m = dict_get cfg ''top_k'' 2"
      "\<forall>x. size2 x = unified_dim m \<and> size0 x = size0 (full 1 5 8 (0::real)) \<and>
            size1 x = size1 (full 1 5 8 (0::real)) \<and>
            dict_get (modality_to_expert m) ''nuscenes'' 0 < num_experts m \<longrightarrow>
            MultiModalMoE_forward m x rw ri ''nuscenes'' = Inl IndexError"
    by blast
  have mm: "m = MultiModalMoE_init (\<lambda>name ix. 0) [0] (dict_get cfg ''unified_dim'' 30) (Some 64)
                   (dict_get cfg ''num_experts'' 4) (dict_get cfg ''top_k'' 2)"
    using m(2) WanModelMoe_init_router(3)[OF init] DiTBlockWithMoE_init_moe[OF cfg(1)]
    by simp
  have "MultiModalMoE_forward m (full 1 5 8 0) rw ri ''nuscenes'' = Inl IndexError"
    using m(4) by (simp add: mm experts_init MultiModalMoE_init_def Let_def cfg_def dict_get_def full_def)
  moreover have "top_k m = 2" using m(3) by (simp add: cfg_def dict_get_def)
  ultimately show ?thesis using init rd m(1,2) unfolding cfg_def by blast
qed

section \<open>Properties of cross-attention\<close>

lemma linear_forward_ok:
  assumes "size2 x = in_features l"
  shows "\<exists>y. linear_forward l x = Inr y \<and> size0 y = size0 x \<and> size1 y = size1 x \<and>
             size2 y = out_features l"
  using assms by (simp add: linear_forward_def)

lemma RMSNorm_forward_ok:
  assumes "size2 x = norm_dim n"
  shows "\<exists>y. RMSNorm_forward n x = Inr y \<and> size0 y = size0 x \<and> size1 y = size1 x \<and>
             size2 y = size2 x"
  using assms by (simp add: RMSNorm_forward_def bdim_same)

lemma projection_norm_ok:
  assumes "size2 x = in_features l" "out_features l = norm_dim n"
  shows "\<exists>y. and_then (linear_forward l x) (RMSNorm_forward n) = Inr y \<and> size0 y = size0 x \<and>
             size1 y = size1 x \<and> size2 y = out_features l"
proof -
  obtain z where z: "linear_forward l x = Inr z" "size0 z = size0 x" "size1 z = size1 x"
    "size2 z = out_features l"
    using linear_forward_ok[OF assms(1)] by blast
  obtain y where y: "RMSNorm_forward n z = Inr y" "size0 y = size0 z" "size1 y = size1 z"
    "size2 y = size2 z"
    using RMSNorm_forward_ok[of z n] z(4) assms(2) by auto
  show ?thesis using z y by (simp add: and_then_Inr)
qed

lemma split_bnsd_ok:
  assumes "0 < n" "size2 x mod n = 0"
  shows "\<exists>y. split_bnsd x n = Inr y \<and> dim0 y = size0 x \<and> dim1 y = n \<and> dim2 y = size1 x \<and>
             dim3 y = size2 x div n"
  using assms by (simp add: split_bnsd_def)

lemma sdpa_ok:
  assumes "dim0 k = dim0 q" "dim0 v = dim0 q" "dim1 k = dim1 q" "dim1 v = dim1 q"
    "dim3 k = dim3 q" "dim2 v = dim2 k"
  shows "\<exists>a. scaled_dot_product_attention q k v = Inr a \<and> dim0 a = dim0 q \<and> dim1 a = dim1 q \<and>
             dim2 a = dim2 q \<and> dim3 a = dim3 v"
  using assms by (simp add: scaled_dot_product_attention_def Let_def)

lemma flash_attention_reference_ok:
  assumes env: "\<not> FLASH_ATTN_3_AVAILABLE env" "\<not> FLASH_ATTN_2_AVAILABLE env"
      "\<not> SAGE_ATTN_AVAILABLE env"
    and n: "0 < n" "D mod n = 0"
    and sz: "size2 q = D" "size2 k = D" "size2 v = D" "size0 k = size0 q" "size0 v = size0 q"
      "size1 v = size1 k"
  shows "\<exists>a. flash_attention env q k v n False = Inr a \<and> size0 a = size0 q \<and>
             size1 a = size1 q \<and> size2 a = D"
proof -
  obtain q' where q': "split_bnsd q n = Inr q'" "dim0 q' = size0 q" "dim1 q' = n"
    "dim2 q' = size1 q" "dim3 q' = D div n"
    using split_bnsd_ok[of n q] n sz by auto
  obtain k' where k': "split_bnsd k n = Inr k'" "dim0 k' = size0 k" "dim1 k' = n"
    "dim2 k' = size1 k" "dim3 k' = D div n"
    using split_bnsd_ok[of n k] n sz by auto
  obtain v' where v': "split_bnsd v n = Inr v'" "dim0 v' = size0 v" "dim1 v' = n"
    "dim2 v' = size1 v" "dim3 v' = D div n"
    using split_bnsd_ok[of n v] n sz by auto
  obtain a' where a': "scaled_dot_product_attention q' k' v' = Inr a'" "dim0 a' = dim0 q'"
    "dim1 a' = dim1 q'" "dim2 a' = dim2 q'" "dim3 a' = dim3 v'"
    using sdpa_ok[of k' q' v'] q' k' v' sz by auto
  have D: "n * (D div n) = D" using n(2) by auto
  have "merge_bnsd a' n = Inr \<lparr>size0 = dim0 a', size1 = dim2 a', size2 = n * dim3 a',
                at3 = (\<lambda>b s c. at4 a' b (c div dim3 a') s (c mod dim3 a'))\<rparr>"
    using a'(3) q'(3) by (simp add: merge_bnsd_def)
  then show ?thesis
    using env q' k' v' a' D by (simp add: flash_attention_def attend_def and_then_Inr)
qed

lemma add3_ok:
  assumes "size0 b = size0 a" "size1 b = size1 a" "size2 b = size2 a"
  shows "\<exists>c. add3 a b = Inr c \<and> size0 c = size0 a \<and> size1 c = size1 a \<and> size2 c = size2 a"
  using assms by (simp add: add3_def bdim_same)

lemma slice1_sizes:
  "size0 (slice1 y a b) = size0 y" "size2 (slice1 y a b) = size2 y"
  "size1 (slice1 y 0 257) = min (size1 y) 257"
  "size1 (slice1 y 257 (int (size1 y))) = size1 y - 257"
  by (auto simp: slice1_def Let_def slice_bound_def)


lemma CrossAttention_init_fields:
  "ca_num_heads (CrossAttention_init init dm nh e True) = nh"
  "ca_has_image_input (CrossAttention_init init dm nh e True)"
  "ca_q (CrossAttention_init init dm nh e True) = mk_linear init ''q'' [] dm dm"
  "ca_k (CrossAttention_init init dm nh e True) = mk_linear init ''k'' [] dm dm"
  "ca_v (CrossAttention_init init dm nh e True) = mk_linear init ''v'' [] dm dm"
  "ca_o (CrossAttention_init init dm nh e True) = mk_linear init ''o'' [] dm dm"
  "ca_norm_q (CrossAttention_init init dm nh e True) = mk_RMSNorm dm e"
  "ca_norm_k (CrossAttention_init init dm nh e True) = mk_RMSNorm dm e"
  "ca_k_img (CrossAttention_init init dm nh e True) = Some (mk_linear init ''k_img'' [] dm dm)"
  "ca_v_img (CrossAttention_init init dm nh e True) = Some (mk_linear init ''v_img'' [] dm dm)"
  "ca_norm_k_img (CrossAttention_init init dm nh e True) = Some (mk_RMSNorm dm e)"
  by (simp_all add: CrossAttention_init_def)

lemma mk_fields:
  "in_features (mk_linear init name ix a b) = a" "out_features (mk_linear init name ix a b) = b"
  "norm_dim (mk_RMSNorm dm e) = dm"
  by (simp_all add: mk_linear_def mk_RMSNorm_def)

text \<open>
  C9 (amended). With image conditioning, the context is cut by Python slices: the image
  context is the first \<open>min L 257\<close> tokens and the text context the \<open>L - 257\<close> others
  (none for \<open>L \<le> 257\<close>). The image keys and values come from their own projections and
  norm, and the two attention outputs are added before the output projection. No length
  is checked: with the reference attention kernel and consistent dimensions the pass
  returns for every context length.
\<close>

theorem cross_attention_image_split:
  assumes self: "self = CrossAttention_init init dm nh eps' True"
    and env: "\<not> FLASH_ATTN_3_AVAILABLE env" "\<not> FLASH_ATTN_2_AVAILABLE env"
      "\<not> SAGE_ATTN_AVAILABLE env"
    and dims: "size2 x = dm" "size2 y = dm" "size0 y = size0 x" "0 < nh" "dm mod nh = 0"
  shows "\<exists>q k v k_img v_img a_text a_img both out.
     size1 (slice1 y 0 257) = min (size1 y) 257 \<and>
     size1 (slice1 y 257 (int (size1 y))) = size1 y - 257 \<and>
     and_then (linear_forward (ca_q self) x) (RMSNorm_forward (ca_norm_q self)) = Inr q \<and>
     and_then (linear_forward (ca_k self) (slice1 y 257 (int (size1 y))))
       (RMSNorm_forward (ca_norm_k self)) = Inr k \<and>
     linear_forward (ca_v self) (slice1 y 257 (int (size1 y))) = Inr v \<and>
     and_then (linear_forward (the (ca_k_img self)) (slice1 y 0 257))
       (RMSNorm_forward (the (ca_norm_k_img self))) = Inr k_img \<and>
     linear_forward (the (ca_v_img self)) (slice1 y 0 257) = Inr v_img \<and>
     flash_attention env q k v nh False = Inr a_text \<and>
     flash_attention env q k_img v_img nh False = Inr a_img \<and>
     add3 a_text a_img = Inr both \<and>
     linear_forward (ca_o self) both = Inr out \<and>
     CrossAttention_forward env self x y = Inr out \<and>
     size0 out = size0 x \<and> size1 out = size1 x \<and> size2 out = dm"
proof -
  note f = CrossAttention_init_fields[of init dm nh eps'] mk_fields
  let ?ctx = "slice1 y 257 (int (size1 y))"
  let ?img = "slice1 y 0 257"
  obtain q where q: "and_then (linear_forward (ca_q self) x) (RMSNorm_forward (ca_norm_q self)) = Inr q"
    "size0 q = size0 x" "size1 q = size1 x" "size2 q = dm"
    using projection_norm_ok[of x "ca_q self" "ca_norm_q self"] dims by (auto simp: self f)
  obtain k where k: "and_then (linear_forward (ca_k self) ?ctx) (RMSNorm_forward (ca_norm_k self)) = Inr k"
    "size0 k = size0 x" "size1 k = size1 ?ctx" "size2 k = dm"
    using projection_norm_ok[of ?ctx "ca_k self" "ca_norm_k self"] dims
    by (auto simp: self f slice1_sizes)
  obtain v where v: "linear_forward (ca_v self) ?ctx = Inr v"
    "size0 v = size0 x" "size1 v = size1 ?ctx" "size2 v = dm"
    using linear_forward_ok[of ?ctx "ca_v self"] dims by (auto simp: self f slice1_sizes)
  obtain k_img where ki: "and_then (linear_forward (the (ca_k_img self)) ?img)
       (RMSNorm_forward (the (ca_norm_k_img self))) = Inr k_img"
    "size0 k_img = size0 x" "size1 k_img = size1 ?img" "size2 k_img = dm"
    using projection_norm_ok[of ?img "the (ca_k_img self)" "the (ca_norm_k_img self)"] dims
    by (auto simp: self f slice1_sizes)
  obtain v_img where vi: "linear_forward (the (ca_v_img self)) ?img = Inr v_img"
    "size0 v_img = size0 x" "size1 v_img = size1 ?img" "size2 v_img = dm"
    using linear_forward_ok[of ?img "the (ca_v_img self)"] dims by (auto simp: self f slice1_sizes)
  obtain a_text where at: "flash_attention env q k v nh False = Inr a_text"
    "size0 a_text = size0 x" "size1 a_text = size1 x" "size2 a_text = dm"
    using flash_attention_reference_ok[OF env dims(4,5), of q k v] q k v by auto
  obtain a_img where ai: "flash_attention env q k_img v_img nh False = Inr a_img"
    "size0 a_img = size0 x" "size1 a_img = size1 x" "size2 a_img = dm"
    using flash_attention_reference_ok[OF env dims(4,5), of q k_img v_img] q ki vi by auto
  obtain both where b: "add3 a_text a_img = Inr both"
    "size0 both = size0 x" "size1 both = size1 x" "size2 both = dm"
    using add3_ok[of a_img a_text] at ai by auto
  obtain out where out: "linear_forward (ca_o self) both = Inr out"
    "size0 out = size0 x" "size1 out = size1 x" "size2 out = dm"
    using linear_forward_ok[of both "ca_o self"] b by (auto simp: self f)
  obtain kl where kl: "linear_forward (the (ca_k_img self)) ?img = Inr kl"
    "RMSNorm_forward (the (ca_norm_k_img self)) kl = Inr k_img"
    using ki(1) by (auto simp: and_then_Inr_iff)
  have fw: "CrossAttention_forward env self x y = Inr out"
    unfolding CrossAttention_forward_def Let_def
    using q(1) k(1) v(1) at(1) kl vi(1) ai(1) b(1) out(1)
    by (simp add: self f and_then_Inr attribute_def)
  show ?thesis
    using slice1_sizes(3,4)[of y] q(1) k(1) v(1) ki(1) vi(1) at(1) ai(1) b(1) out fw by blast
qed


theorem cross_attention_image_split_witness:
  "\<exists>out. CrossAttention_forward
            \<lparr>FLASH_ATTN_3_AVAILABLE = False, FLASH_ATTN_2_AVAILABLE = False,
             SAGE_ATTN_AVAILABLE = False, flash_attn_3_func = (\<lambda>q k v. Inl RuntimeError),
             flash_attn_2_func = (\<lambda>q k v. Inl RuntimeError),
             sageattn = (\<lambda>q k v. Inl RuntimeError)\<rparr>
            (CrossAttention_init (\<lambda>name ix. 0) 4 2 (1 / 10 ^ 6) True)
            (full 1 5 4 0) (full 1 300 4 0) = Inr out \<and>
         size0 out = 1 \<and> size1 out = 5 \<and> size2 out = 4 \<and>
         size1 (slice1 (full 1 300 4 (0::real)) 0 257) = 257 \<and>
         size1 (slice1 (full 1 300 4 (0::real)) 257 300) = 43"
proof -
  define env where "env = \<lparr>FLASH_ATTN_3_AVAILABLE = False, FLASH_ATTN_2_AVAILABLE = False,
             SAGE_ATTN_AVAILABLE = False, flash_attn_3_func = (\<lambda>q k v. Inl RuntimeError),
             flash_attn_2_func = (\<lambda>q k v. Inl RuntimeError),
             sageattn = (\<lambda>q k v. Inl RuntimeError)\<rparr>"
  have env: "\<not> FLASH_ATTN_3_AVAILABLE env" "\<not> FLASH_ATTN_2_AVAILABLE env"
      "\<not> SAGE_ATTN_AVAILABLE env"
    by (simp_all add: env_def)
  have dims: "size2 (full 1 5 4 (0::real)) = 4" "size2 (full 1 300 4 (0::real)) = 4"
    "size0 (full 1 300 4 (0::real)) = size0 (full 1 5 4 (0::real))" "(0::nat) < 2" "(4::nat) mod 2 = 0"
    by (simp_all add: full_def)
  from cross_attention_image_split[OF refl env dims, of "\<lambda>name ix. 0" "1 / 10 ^ 6"]
  obtain out where
    "CrossAttention_forward env (CrossAttention_init (\<lambda>name ix. 0) 4 2 (1 / 10 ^ 6) True)
       (full 1 5 4 0) (full 1 300 4 0) = Inr out"
    "size0 out = size0 (full 1 5 4 (0::real))" "size1 out = size1 (full 1 5 4 (0::real))"
    "size2 out = 4"
    "size1 (slice1 (full 1 300 4 (0::real)) 0 257) = min (size1 (full 1 300 4 (0::real))) 257"
    "size1 (slice1 (full 1 300 4 (0::real)) 257 (int (size1 (full 1 300 4 (0::real)))))
       = size1 (full 1 300 4 (0::real)) - 257"
    by blast
  then show ?thesis unfolding env_def by (simp add: full_def)
qed

theorem cross_attention_short_context_counterexample:
  "size1 (full 1 3 4 (0::real)) < 257 \<and>
   \<not> isl (CrossAttention_forward
            \<lparr>FLASH_ATTN_3_AVAILABLE = False, FLASH_ATTN_2_AVAILABLE = False,
             SAGE_ATTN_AVAILABLE = False, flash_attn_3_func = (\<lambda>q k v. Inl RuntimeError),
             flash_attn_2_func = (\<lambda>q k v. Inl RuntimeError),
             sageattn = (\<lambda>q k v. Inl RuntimeError)\<rparr>
            (CrossAttention_init (\<lambda>name ix. 0) 4 2 (1 / 10 ^ 6) True)
            (full 1 5 4 0) (full 1 3 4 0))"
  by (simp add: CrossAttention_forward_def CrossAttention_init_def mk_linear_def mk_RMSNorm_def
      full_def linear_forward_def RMSNorm_forward_def and_then_def slice1_def slice_bound_def
      bdim_def flash_attention_def attend_def split_bnsd_def merge_bnsd_def
      scaled_dot_product_attention_def add3_def attribute_def Let_def)

section \<open>Properties of the token assembler\<close>

lemma cat0_rows: "cat0 ts = Inr r \<Longrightarrow> rows2 r = sum_list (map rows2 ts)"
proof (induction ts arbitrary: r rule: cat0.induct)
  case 1
  then show ?case by simp
next
  case (2 t)
  then show ?case by simp
next
  case (3 t u us)
  from "3.prems" obtain r' where r': "cat0 (u # us) = Inr r'"
    and r: "(if cols2 t = cols2 r'
       then Inr \<lparr>rows2 = rows2 t + rows2 r', cols2 = cols2 t,
                 at2 = (\<lambda>i j. if i < rows2 t then at2 t i j else at2 r' (i - rows2 t) j)\<rparr>
       else Inl RuntimeError) = Inr r"
    by (auto simp: and_then_Inr_iff)
  from r have "rows2 r = rows2 t + rows2 r'" by (auto split: if_splits)
  then show ?case using "3.IH"[OF r'] by simp
qed

lemma spatial_freqs_rows: "spatial_freqs fr t h w = Inr r \<Longrightarrow> rows2 r = h * w"
  by (cases fr) (auto simp: spatial_freqs_def Let_def and_then_Inr_iff)

lemma frames_freqs_rows:
  assumes "frames_freqs fr ts h w = Inr r"
  shows "rows2 r = length ts * (h * w)"
proof -
  from assms obtain vs where vs: "sequence (map (\<lambda>t_idx. spatial_freqs fr t_idx h w) ts) = Inr vs"
    and c: "cat0 vs = Inr r"
    by (auto simp: frames_freqs_def and_then_Inr_iff)
  have len: "length vs = length ts" and each: "\<forall>i<length ts. spatial_freqs fr (ts ! i) h w = Inr (vs ! i)"
    using vs by (simp_all add: sequence_map_Inr_iff)
  have "\<forall>i<length vs. rows2 (vs ! i) = h * w"
    using each len spatial_freqs_rows by metis
  then have "map rows2 vs = replicate (length vs) (h * w)"
    by (intro nth_equalityI) simp_all
  then have "sum_list (map rows2 vs) = length vs * (h * w)"
    by (simp add: sum_list_replicate)
  then show ?thesis using cat0_rows[OF c] len by simp
qed

lemma sequence_map_upt:
  "sequence (map f [0..<n]) = Inr vs \<longleftrightarrow> length vs = n \<and> (\<forall>i<n. f i = Inr (vs ! i))"
  by (auto simp: sequence_map_Inr_iff)

lemma stack0_Inr:
  assumes "stack0 ts = Inr r"
  shows "ts \<noteq> []" "size0 r = length ts" "size1 r = rows2 (hd ts)" "size2 r = cols2 (hd ts)"
    "at3 r = (\<lambda>b i j. at2 (ts ! b) i j)"
  using assms by (cases ts; auto simp: stack0_def split: if_splits)+

lemma indexed_freqs_Inr:
  assumes "indexed_freqs fr indices B h w = Inr r"
  shows "0 < B" "size0 r = B" "indices \<noteq> []" "size1 r = length (hd indices) * (h * w)"
proof -
  from assms obtain vs where
    vs: "sequence (map (\<lambda>b. if b < length indices then frames_freqs fr (indices ! b) h w
                                   else Inl IndexError) [0..<B]) = Inr vs"
    and st: "stack0 vs = Inr r"
    by (auto simp: indexed_freqs_def and_then_Inr_iff)
  have len: "length vs = B"
    and each: "\<forall>i<B. (if i < length indices then frames_freqs fr (indices ! i) h w
                                   else Inl IndexError) = Inr (vs ! i)"
    using vs unfolding sequence_map_upt by simp_all
  note s = stack0_Inr[OF st]
  show B: "0 < B" using s(1) len by auto
  show "size0 r = B" using s(2) len by simp
  have z: "(if 0 < length indices then frames_freqs fr (indices ! 0) h w else Inl IndexError) = Inr (vs ! 0)"
    using each B by blast
  then show ne: "indices \<noteq> []" by (auto split: if_splits)
  from z ne have "frames_freqs fr (indices ! 0) h w = Inr (vs ! 0)" by simp
  then have "rows2 (vs ! 0) = length (indices ! 0) * (h * w)" by (rule frames_freqs_rows)
  then show "size1 r = length (hd indices) * (h * w)"
    using s(3) s(1) ne by (simp add: hd_conv_nth)
qed

lemma cat1_Inr:
  assumes "cat1 a b = Inr c"
  shows "size0 c = size0 a" "size1 c = size1 a + size1 b" "size2 c = size2 a"
    "size0 b = size0 a" "size2 b = size2 a"
    "at3 c = (\<lambda>n i j. if i < size1 a then at3 a n i j else at3 b n (i - size1 a) j)"
  using assms by (auto simp: cat1_def split: if_splits)

lemma patchify_Inr:
  assumes "patchify self x = Inr (hidden, (f, h, w))"
  shows "size1 hidden = f * h * w" "size0 hidden = n_batch x"
  using assms
  by (auto simp: patchify_def and_then_Inr_iff tokens_of_def conv3d_forward_def split: if_splits prod.splits)


lemma prepend_1x_cases:
  assumes "prepend_1x self B h w start cam cl ci (hidden, rope, combined) = Inr (hidden', rope', combined')"
  shows "(\<exists>x ix e emb R. cl = Some x \<and> ci = Some ix \<and> clean_x_embedder self = Some e \<and>
            CleanXEmbedder_forward e x ''1x'' = Inr emb \<and>
            indexed_freqs (freqs_attr self) ix B h w = Inr R \<and>
            cat1 (tokens_of emb) hidden = Inr hidden' \<and> cat1 R rope = Inr rope')
         \<or> ((cl = None \<or> ci = None) \<and> hidden' = hidden \<and> rope' = rope \<and> combined' = combined)"
proof (cases cl)
  case None
  then show ?thesis using assms by (simp add: prepend_1x_def)
next
  case (Some x)
  show ?thesis
  proof (cases ci)
    case None
    then show ?thesis using assms Some by (simp add: prepend_1x_def)
  next
    case (Some ix)
    from assms \<open>cl = Some x\<close> Some obtain emb R c' where
      emb: "(case clean_x_embedder self of
                      None \<Rightarrow> Inl (AttributeError ''clean_x_embedder'')
                    | Some e \<Rightarrow> CleanXEmbedder_forward e x ''1x'') = Inr emb"
      and R: "indexed_freqs (freqs_attr self) ix B h w = Inr R"
      and h': "cat1 (tokens_of emb) hidden = Inr hidden'"
      and r': "cat1 R rope = Inr rope'"
      unfolding prepend_1x_def Let_def by (auto simp: and_then_Inr_iff)
    from emb obtain e where "clean_x_embedder self = Some e" "CleanXEmbedder_forward e x ''1x'' = Inr emb"
      by (cases "clean_x_embedder self") auto
    then show ?thesis using \<open>cl = Some x\<close> Some R h' r' by blast
  qed
qed

lemma prepend_coarse_cases:
  assumes "prepend_coarse self scale kern B start cam cl ci (hidden, rope, combined)
             = Inr (hidden', rope', combined')"
  shows "(\<exists>x ix padded e emb R. cl = Some x \<and> ci = Some ix \<and>
            filter (\<lambda>i. 0 \<le> i) (concat ix) \<noteq> [] \<and>
            pad_for_3d_conv x kern = Inr padded \<and> clean_x_embedder self = Some e \<and>
            CleanXEmbedder_forward e padded scale = Inr emb \<and>
            and_then (sequence (map (\<lambda>b. frames_freqs (freqs_attr self)
                (map (\<lambda>frame_idx. if frame_idx < length (filter (\<lambda>i. 0 \<le> i) (concat ix))
                                    then filter (\<lambda>i. 0 \<le> i) (concat ix) ! frame_idx
                                    else last (filter (\<lambda>i. 0 \<le> i) (concat ix))) [0..<n_time emb])
                (n_height emb) (n_width emb)) [0..<B])) stack0 = Inr R \<and>
            cat1 (tokens_of emb) hidden = Inr hidden' \<and> cat1 R rope = Inr rope')
         \<or> ((cl = None \<or> ci = None \<or> filter (\<lambda>i. 0 \<le> i) (concat (the ci)) = []) \<and>
             hidden' = hidden \<and> rope' = rope \<and> combined' = combined)"
proof (cases cl)
  case None
  then show ?thesis using assms by (simp add: prepend_coarse_def)
next
  case (Some x)
  show ?thesis
  proof (cases ci)
    case None
    then show ?thesis using assms Some by (simp add: prepend_coarse_def)
  next
    case (Some ix)
    show ?thesis
    proof (cases "filter (\<lambda>i. 0 \<le> i) (concat ix) = []")
      case True
      then show ?thesis using assms \<open>cl = Some x\<close> Some by (simp add: prepend_coarse_def Let_def)
    next
      case False
      then have "concat ix \<noteq> []" by (metis filter.simps(1))
      then have ne: "\<not> (\<forall>xs\<in>set ix. xs = [])" by simp
      from assms \<open>cl = Some x\<close> Some False ne obtain padded emb R where
        p: "pad_for_3d_conv x kern = Inr padded"
        and emb: "(case clean_x_embedder self of
                        None \<Rightarrow> Inl (AttributeError ''clean_x_embedder'')
                      | Some e \<Rightarrow> CleanXEmbedder_forward e padded scale) = Inr emb"
        and R: "and_then (sequence (map (\<lambda>b. frames_freqs (freqs_attr self)
                (map (\<lambda>frame_idx. if frame_idx < length (filter (\<lambda>i. 0 \<le> i) (concat ix))
                                    then filter (\<lambda>i. 0 \<le> i) (concat ix) ! frame_idx
                                    else last (filter (\<lambda>i. 0 \<le> i) (concat ix))) [0..<n_time emb])
                (n_height emb) (n_width emb)) [0..<B])) stack0 = Inr R"
        and h': "cat1 (tokens_of emb) hidden = Inr hidden'"
        and r': "cat1 R rope = Inr rope'"
        unfolding prepend_coarse_def Let_def by (auto simp: and_then_Inr_iff)
      from emb obtain e where "clean_x_embedder self = Some e"
        "CleanXEmbedder_forward e padded scale = Inr emb"
        by (cases "clean_x_embedder self") auto
      then show ?thesis using \<open>cl = Some x\<close> Some False p R h' r' by blast
    qed
  qed
qed

lemma coarse_freqs_size:
  assumes "and_then (sequence (map (\<lambda>b. frames_freqs fr ts h w) [0..<B])) stack0 = Inr R"
  shows "size1 R = length ts * (h * w)" "size0 R = B" "0 < B"
proof -
  from assms obtain vs where vs: "sequence (map (\<lambda>b. frames_freqs fr ts h w) [0..<B]) = Inr vs"
    and st: "stack0 vs = Inr R"
    by (auto simp: and_then_Inr_iff)
  have len: "length vs = B" and each: "\<forall>i<B. frames_freqs fr ts h w = Inr (vs ! i)"
    using vs unfolding sequence_map_upt by simp_all
  note s = stack0_Inr[OF st]
  show B: "0 < B" using s(1) len by auto
  show "size0 R = B" using s(2) len by simp
  have "frames_freqs fr ts h w = Inr (vs ! 0)" using each B by blast
  then have "rows2 (vs ! 0) = length ts * (h * w)" by (rule frames_freqs_rows)
  then show "size1 R = length ts * (h * w)" using s(3) s(1) by (simp add: hd_conv_nth)
qed

lemma process_input_hidden_states_Inr:
  assumes "process_input_hidden_states self latents latent_indices cl ci cl2 ci2 cl4 ci4 cam mi = Inr asm"
  shows "\<exists>hidden0 f h w rope0 start comb0 st1 st2.
     patchify self latents = Inr (hidden0, (f, h, w)) \<and> grid_size asm = (f, h, w) \<and>
     indexed_freqs (freqs_attr self)
       (case latent_indices of None \<Rightarrow> replicate (size0 hidden0) (map int [0..<f])
        | Some indices \<Rightarrow> indices) (size0 hidden0) h w = Inr rope0 \<and>
     prepend_1x self (size0 hidden0) h w start cam cl ci (hidden0, rope0, comb0) = Inr st1 \<and>
     prepend_coarse self ''2x'' (2, 4, 4) (size0 hidden0) start cam cl2 ci2 st1 = Inr st2 \<and>
     prepend_coarse self ''4x'' (4, 8, 8) (size0 hidden0) start cam cl4 ci4 st2
       = Inr (hidden_states asm, rope_freqs asm, combined_modality_embeddings asm)"
proof -
  from assms obtain hidden0 grid where p: "patchify self latents = Inr (hidden0, grid)"
    unfolding process_input_hidden_states_def by (auto simp: and_then_Inr_iff)
  obtain f h w where g: "grid = (f, h, w)" by (cases grid)
  from assms p g obtain rope0 start comb0 st1 st2 st3 where
    r0: "indexed_freqs (freqs_attr self)
       (case latent_indices of None \<Rightarrow> replicate (size0 hidden0) (map int [0..<f])
        | Some indices \<Rightarrow> indices) (size0 hidden0) h w = Inr rope0"
    and s1: "prepend_1x self (size0 hidden0) h w start cam cl ci (hidden0, rope0, comb0) = Inr st1"
    and s2: "prepend_coarse self ''2x'' (2, 4, 4) (size0 hidden0) start cam cl2 ci2 st1 = Inr st2"
    and s3: "prepend_coarse self ''4x'' (4, 8, 8) (size0 hidden0) start cam cl4 ci4 st2 = Inr st3"
    and fin: "(case st3 of (hidden', rope', combined') \<Rightarrow>
       Inr \<lparr>hidden_states = hidden', rope_freqs = rope', grid_size = grid,
            combined_modality_embeddings = combined',
            processed_modality_inputs =
              (case mi of
                 None \<Rightarrow> None
               | Some items \<Rightarrow>
                   if items \<noteq> [] \<and> use_moe self
                   then Some (map (\<lambda>(modality_type, _). (modality_type, combined')) items)
                   else None)\<rparr>) = Inr asm"
    unfolding process_input_hidden_states_def Let_def and_then_Inr
    by (auto simp: and_then_Inr_iff)
  from fin have st3: "st3 = (hidden_states asm, rope_freqs asm, combined_modality_embeddings asm)"
    and gs: "grid_size asm = grid"
    by (cases st3; auto)+
  show ?thesis
    apply (rule exI[of _ hidden0], rule exI[of _ f], rule exI[of _ h], rule exI[of _ w])
    apply (rule exI[of _ rope0], rule exI[of _ start], rule exI[of _ comb0])
    apply (rule exI[of _ st1], rule exI[of _ st2])
    using p g r0 s1 s2 s3 st3 gs by simp
qed

lemma forward_before_blocks_Inr:
  assumes "forward_before_blocks self latents timestep cam0 latent_indices cl ci cl2 ci2 cl4 ci4
             minputs context = Inr r"
  shows "\<exists>mi' cam'. process_modality_inputs self minputs = Inr (Some (mi', cam')) \<and>
           process_input_hidden_states self latents latent_indices cl ci cl2 ci2 cl4 ci4
             (Some cam') (Some mi') = Inr (tokens r) \<and>
           size1 (rope_freqs (tokens r)) = size1 (hidden_states (tokens r))"
proof -
  from assms obtain unpacked where u: "process_modality_inputs self minputs = Inr unpacked"
    and rest: "(case unpacked of
       None \<Rightarrow> Inl TypeError
     | Some (modality_inputs', cam_emb') \<Rightarrow>
     and_then (process_input_hidden_states self latents latent_indices
                 cl ci cl2 ci2 cl4 ci4 (Some cam_emb') (Some modality_inputs'))
       (\<lambda>asm.
     case patch_size self of (p_t, p_h, p) \<Rightarrow>
     if p_t = 0 \<or> p = 0 then Inl ZeroDivisionError
     else
     let post_patch_num_frames = n_time latents div p_t;
         post_patch_height = n_height latents div p;
         post_patch_width = n_width latents div p;
         context_length = post_patch_num_frames * post_patch_height * post_patch_width
     in
     and_then (case context of
                 None \<Rightarrow> Inr None
               | Some c \<Rightarrow> and_then (text_embedding_forward self c) (\<lambda>r. Inr (Some r)))
       (\<lambda>context'.
     and_then (time_embedding_forward self (sinusoidal_embedding_1d (freq_dim self) timestep))
       (\<lambda>t.
     and_then (time_projection_forward self t) (\<lambda>t_mod'.
     if size1 (rope_freqs asm) \<noteq> size1 (hidden_states asm)
     then Inl (AssertionError (RopeSeqLenMismatch (size1 (rope_freqs asm))
                                 (size1 (hidden_states asm))))
     else
     and_then (case processed_modality_inputs asm of
                 None \<Rightarrow> Inr (None, None, 0)
               | Some items \<Rightarrow>
                   if use_moe self \<and> items \<noteq> []
                   then and_then (combine_modalities (None, ''unknown'') items)
                          (\<lambda>(combined, active_modality).
                             case combined of
                               None \<Rightarrow> Inr (None, None, 0)
                             | Some c \<Rightarrow>
                                 (case compute_router_decisions self c active_modality of
                                    (rw, ri, loss) \<Rightarrow> Inr (Some rw, Some ri, loss)))
                   else Inr (None, None, 0))
       (\<lambda>(rw, ri, loss).
          Inr \<lparr>tokens = asm, original_context_length = context_length,
               context_embedded = context', t_embedded = t, t_mod = t_mod',
               router_weights = rw, router_indices = ri,
               total_specialization_loss = loss\<rparr>)))))) = Inr r"
    unfolding forward_before_blocks_def and_then_Inr_iff by blast
  from rest obtain mi' cam' where un: "unpacked = Some (mi', cam')"
    by (cases unpacked) auto
  from rest[unfolded un] obtain asm where
    a: "process_input_hidden_states self latents latent_indices
                 cl ci cl2 ci2 cl4 ci4 (Some cam') (Some mi') = Inr asm"
    and rest2: "(case patch_size self of (p_t, p_h, p) \<Rightarrow>
     if p_t = 0 \<or> p = 0 then Inl ZeroDivisionError
     else
     let post_patch_num_frames = n_time latents div p_t;
         post_patch_height = n_height latents div p;
         post_patch_width = n_width latents div p;
         context_length = post_patch_num_frames * post_patch_height * post_patch_width
     in
     and_then (case context of
                 None \<Rightarrow> Inr None
               | Some c \<Rightarrow> and_then (text_embedding_forward self c) (\<lambda>r. Inr (Some r)))
       (\<lambda>context'.
     and_then (time_embedding_forward self (sinusoidal_embedding_1d (freq_dim self) timestep))
       (\<lambda>t.
     and_then (time_projection_forward self t) (\<lambda>t_mod'.
     if size1 (rope_freqs asm) \<noteq> size1 (hidden_states asm)
     then Inl (AssertionError (RopeSeqLenMismatch (size1 (rope_freqs asm))
                                 (size1 (hidden_states asm))))
     else
     and_then (case processed_modality_inputs asm of
                 None \<Rightarrow> Inr (None, None, 0)
               | Some items \<Rightarrow>
                   if use_moe self \<and> items \<noteq> []
                   then and_then (combine_modalities (None, ''unknown'') items)
                          (\<lambda>(combined, active_modality).
                             case combined of
                               None \<Rightarrow> Inr (None, None, 0)
                             | Some c \<Rightarrow>
                                 (case compute_router_decisions self c active_modality of
                                    (rw, ri, loss) \<Rightarrow> Inr (Some rw, Some ri, loss)))
                   else Inr (None, None, 0))
       (\<lambda>(rw, ri, loss).
          Inr \<lparr>tokens = asm, original_context_length = context_length,
               context_embedded = context', t_embedded = t, t_mod = t_mod',
               router_weights = rw, router_indices = ri,
               total_specialization_loss = loss\<rparr>))))) = Inr r"
    by (auto simp: and_then_Inr_iff)
  obtain p_t p_h p where ps: "patch_size self = (p_t, p_h, p)" by (cases "patch_size self")
  from rest2 have "size1 (rope_freqs asm) = size1 (hidden_states asm) \<and> tokens r = asm"
    unfolding ps Let_def
    by (auto simp: and_then_Inr_iff split: if_splits)
  then show ?thesis using u un a by auto
qed

lemma forward_before_blocks_mismatch:
  assumes "process_modality_inputs self minputs = Inr (Some (mi', cam'))"
    and "process_input_hidden_states self latents latent_indices cl ci cl2 ci2 cl4 ci4
           (Some cam') (Some mi') = Inr asm"
    and "patch_size self = (p_t, p_h, p)" "p_t \<noteq> 0" "p \<noteq> 0"
    and "(case context of None \<Rightarrow> Inr None
          | Some c \<Rightarrow> and_then (text_embedding_forward self c) (\<lambda>r. Inr (Some r))) = Inr context'"
    and "time_embedding_forward self (sinusoidal_embedding_1d (freq_dim self) timestep) = Inr t"
    and "time_projection_forward self t = Inr tm"
    and "size1 (rope_freqs asm) \<noteq> size1 (hidden_states asm)"
  shows "forward_before_blocks self latents timestep cam0 latent_indices cl ci cl2 ci2 cl4 ci4
           minputs context
         = Inl (AssertionError (RopeSeqLenMismatch (size1 (rope_freqs asm))
                                  (size1 (hidden_states asm))))"
  unfolding forward_before_blocks_def using assms by (simp add: and_then_Inr Let_def)

lemma tokens_of_size1: "size1 (tokens_of x) = n_time x * n_height x * n_width x"
  by (simp add: tokens_of_def)

lemma conv_1x_dims:
  assumes "CleanXEmbedder_forward e x ''1x'' = Inr emb" "kernel_size (proj e) = (1, 2, 2)"
  shows "n_time emb = n_time x" "n_height emb = n_height x div 2" "n_width emb = n_width x div 2"
  using assms by (auto simp: CleanXEmbedder_forward_def conv3d_forward_def split: if_splits)

lemma prepend_coarse_aligned:
  assumes "prepend_coarse self scale kern B start cam cl ci (hidden, rope, combined)
             = Inr (hidden', rope', combined')"
    and "size1 hidden = size1 rope"
  shows "size1 hidden' = size1 rope'"
proof (cases "hidden' = hidden \<and> rope' = rope")
  case True
  then show ?thesis using assms(2) by simp
next
  case False
  with prepend_coarse_cases[OF assms(1)] obtain ix emb R where
    R: "and_then (sequence (map (\<lambda>b. frames_freqs (freqs_attr self)
                (map (\<lambda>frame_idx. if frame_idx < length (filter (\<lambda>i. 0 \<le> i) (concat ix))
                                    then filter (\<lambda>i. 0 \<le> i) (concat ix) ! frame_idx
                                    else last (filter (\<lambda>i. 0 \<le> i) (concat ix))) [0..<n_time emb])
                (n_height emb) (n_width emb)) [0..<B])) stack0 = Inr R"
    and h: "cat1 (tokens_of emb) hidden = Inr hidden'" and r: "cat1 R rope = Inr rope'"
    by auto
  have "size1 R = n_time emb * (n_height emb * n_width emb)"
    using coarse_freqs_size(1)[OF R] by simp
  then show ?thesis
    using cat1_Inr(2)[OF h] cat1_Inr(2)[OF r] assms(2) by (simp add: tokens_of_size1 mult.assoc)
qed

lemma prepend_1x_aligned:
  assumes "prepend_1x self B h w start cam cl ci (hidden, rope, combined) = Inr (hidden', rope', combined')"
    and "size1 hidden = size1 rope"
    and wf: "\<forall>x indices e. cl = Some x \<and> ci = Some indices \<and> clean_x_embedder self = Some e \<longrightarrow>
            kernel_size (proj e) = (1, 2, 2) \<and> length (hd indices) = n_time x \<and>
            n_height x div 2 = h \<and> n_width x div 2 = w"
  shows "size1 hidden' = size1 rope'"
proof (cases "hidden' = hidden \<and> rope' = rope")
  case True
  then show ?thesis using assms(2) by simp
next
  case False
  with prepend_1x_cases[OF assms(1)] obtain x ix e emb R where
    cl: "cl = Some x" "ci = Some ix" "clean_x_embedder self = Some e"
    and emb: "CleanXEmbedder_forward e x ''1x'' = Inr emb"
    and R: "indexed_freqs (freqs_attr self) ix B h w = Inr R"
    and hh: "cat1 (tokens_of emb) hidden = Inr hidden'" and r: "cat1 R rope = Inr rope'"
    by auto
  have k: "kernel_size (proj e) = (1, 2, 2)" "length (hd ix) = n_time x"
    "n_height x div 2 = h" "n_width x div 2 = w"
    using wf cl by blast+
  note d = conv_1x_dims[OF emb k(1)]
  have "size1 R = size1 (tokens_of emb)"
    using indexed_freqs_Inr(4)[OF R] d k by (simp add: tokens_of_size1 mult.assoc)
  then show ?thesis using cat1_Inr(2)[OF hh] cat1_Inr(2)[OF r] assms(2) by simp
qed

lemma process_input_hidden_states_aligned:
  assumes a: "process_input_hidden_states self latents latent_indices cl ci cl2 ci2 cl4 ci4 cam mi = Inr asm"
    and p: "patchify self latents = Inr (hidden0, (f, h, w))"
    and li: "\<forall>indices. latent_indices = Some indices \<longrightarrow> length (hd indices) = f"
    and wf: "\<forall>x indices e. cl = Some x \<and> ci = Some indices \<and> clean_x_embedder self = Some e \<longrightarrow>
            kernel_size (proj e) = (1, 2, 2) \<and> length (hd indices) = n_time x \<and>
            n_height x div 2 = h \<and> n_width x div 2 = w"
  shows "size1 (hidden_states asm) = size1 (rope_freqs asm)"
proof -
  from process_input_hidden_states_Inr[OF a] p obtain rope0 start comb0 st1 st2 where
    r0: "indexed_freqs (freqs_attr self)
       (case latent_indices of None \<Rightarrow> replicate (size0 hidden0) (map int [0..<f])
        | Some indices \<Rightarrow> indices) (size0 hidden0) h w = Inr rope0"
    and s1: "prepend_1x self (size0 hidden0) h w start cam cl ci (hidden0, rope0, comb0) = Inr st1"
    and s2: "prepend_coarse self ''2x'' (2, 4, 4) (size0 hidden0) start cam cl2 ci2 st1 = Inr st2"
    and s3: "prepend_coarse self ''4x'' (4, 8, 8) (size0 hidden0) start cam cl4 ci4 st2
       = Inr (hidden_states asm, rope_freqs asm, combined_modality_embeddings asm)"
    by auto
  note i = indexed_freqs_Inr[OF r0]
  have "length (hd (case latent_indices of None \<Rightarrow> replicate (size0 hidden0) (map int [0..<f])
        | Some indices \<Rightarrow> indices)) = f"
    using li i(1) by (cases latent_indices) (auto simp: hd_replicate)
  then have m: "size1 hidden0 = size1 rope0"
    using i(4) patchify_Inr(1)[OF p] by (simp add: mult.assoc)
  obtain h1 r1 c1 where st1: "st1 = (h1, r1, c1)" by (cases st1)
  obtain h2 r2 c2 where st2: "st2 = (h2, r2, c2)" by (cases st2)
  have a1: "size1 h1 = size1 r1" using prepend_1x_aligned[OF s1[unfolded st1] m wf] .
  have a2: "size1 h2 = size1 r2" using prepend_coarse_aligned[OF s2[unfolded st1 st2] a1] .
  show ?thesis using prepend_coarse_aligned[OF s3[unfolded st2] a2] .
qed

lemma upt_small: "[0..<1::nat] = [0]" "[0..<2::nat] = [0, 1]" "[0..<Suc 0] = [0]"
  by (simp_all add: numeral_2_eq_2)

lemmas assembler_defs =
  process_input_hidden_states_def patchify_def conv3d_forward_def mk_conv3d_def
  and_then_def tokens_of_def indexed_freqs_def frames_freqs_def spatial_freqs_def
  precompute_freqs_cis_3d_def precompute_freqs_cis_def arange2_def Let_def
  table_rows_def view_rows_def slice_bound_def stack0_def start_index_def
  target_camera_spatial_def prepend_1x_def prepend_coarse_def create_clean_x_embedder_def
  CleanXEmbedder_forward_def cat1_def pad_for_3d_conv_def upt_small
  row0_min_max_def slice1_def spatial_repeat_def cat_camera_def coarse_camera_def select1_def

lemmas forward_defs =
  forward_before_blocks_def process_modality_inputs_def process_modality_step_def
  ModalityProcessor_forward_def linear_forward_def linear_forward2_def mk_linear_def
  dict_set_def text_embedding_forward_def time_embedding_forward_def
  time_projection_forward_def sinusoidal_embedding_1d_def compute_router_decisions_def
  dict_get_def full_def

text \<open>
  C2 (amended). (1) When every frame-index list has one index per frame, and the 1x clean
  latents are embedded with the kernel \<open>(1, 2, 2)\<close> onto the grid of the primary
  latents, the tokens and the frequencies assembled by \<open>process_input_hidden_states\<close>
  have the same sequence length, whatever scales are supplied. (2) The forward pass never
  goes on with different lengths. (3) When the assembler returns different lengths, the
  forward pass stops at its assertion, with an error that holds both lengths.
\<close>

theorem token_frequency_alignment:
  "(process_input_hidden_states self latents latent_indices cl ci cl2 ci2 cl4 ci4 cam mi = Inr asm \<and>
    patchify self latents = Inr (hidden0, (f, h, w)) \<and>
    (\<forall>indices. latent_indices = Some indices \<longrightarrow> length (hd indices) = f) \<and>
    (\<forall>x indices e. cl = Some x \<and> ci = Some indices \<and> clean_x_embedder self = Some e \<longrightarrow>
        kernel_size (proj e) = (1, 2, 2) \<and> length (hd indices) = n_time x \<and>
        n_height x div 2 = h \<and> n_width x div 2 = w)
    \<longrightarrow> size1 (hidden_states asm) = size1 (rope_freqs asm)) \<and>
   (forward_before_blocks self latents timestep cam0 latent_indices cl ci cl2 ci2 cl4 ci4
      minputs context = Inr r
    \<longrightarrow> size1 (rope_freqs (tokens r)) = size1 (hidden_states (tokens r))) \<and>
   (process_modality_inputs self minputs = Inr (Some (mi', cam')) \<and>
    process_input_hidden_states self latents latent_indices cl ci cl2 ci2 cl4 ci4
      (Some cam') (Some mi') = Inr asm' \<and>
    size1 (rope_freqs asm') \<noteq> size1 (hidden_states asm') \<and>
    patch_size self = (p_t, p_h, p) \<and> p_t \<noteq> 0 \<and> p \<noteq> 0 \<and>
    (case context of None \<Rightarrow> Inr None
     | Some c \<Rightarrow> and_then (text_embedding_forward self c) (\<lambda>r. Inr (Some r))) = Inr context' \<and>
    time_embedding_forward self (sinusoidal_embedding_1d (freq_dim self) timestep) = Inr t \<and>
    time_projection_forward self t = Inr tm
    \<longrightarrow> forward_before_blocks self latents timestep cam0 latent_indices cl ci cl2 ci2 cl4 ci4
          minputs context
        = Inl (AssertionError (RopeSeqLenMismatch (size1 (rope_freqs asm'))
                                 (size1 (hidden_states asm')))))"
proof (intro conjI impI)
  assume "process_input_hidden_states self latents latent_indices cl ci cl2 ci2 cl4 ci4 cam mi = Inr asm \<and>
    patchify self latents = Inr (hidden0, (f, h, w)) \<and>
    (\<forall>indices. latent_indices = Some indices \<longrightarrow> length (hd indices) = f) \<and>
    (\<forall>x indices e. cl = Some x \<and> ci = Some indices \<and> clean_x_embedder self = Some e \<longrightarrow>
        kernel_size (proj e) = (1, 2, 2) \<and> length (hd indices) = n_time x \<and>
        n_height x div 2 = h \<and> n_width x div 2 = w)"
  then show "size1 (hidden_states asm) = size1 (rope_freqs asm)"
    using process_input_hidden_states_aligned[of self latents latent_indices cl ci cl2 ci2 cl4 ci4
        cam mi asm hidden0 f h w]
    by blast
next
  assume "forward_before_blocks self latents timestep cam0 latent_indices cl ci cl2 ci2 cl4 ci4
      minputs context = Inr r"
  from forward_before_blocks_Inr[OF this]
  show "size1 (rope_freqs (tokens r)) = size1 (hidden_states (tokens r))" by blast
next
  assume a: "process_modality_inputs self minputs = Inr (Some (mi', cam')) \<and>
    process_input_hidden_states self latents latent_indices cl ci cl2 ci2 cl4 ci4
      (Some cam') (Some mi') = Inr asm' \<and>
    size1 (rope_freqs asm') \<noteq> size1 (hidden_states asm') \<and>
    patch_size self = (p_t, p_h, p) \<and> p_t \<noteq> 0 \<and> p \<noteq> 0 \<and>
    (case context of None \<Rightarrow> Inr None
     | Some c \<Rightarrow> and_then (text_embedding_forward self c) (\<lambda>r. Inr (Some r))) = Inr context' \<and>
    time_embedding_forward self (sinusoidal_embedding_1d (freq_dim self) timestep) = Inr t \<and>
    time_projection_forward self t = Inr tm"
  show "forward_before_blocks self latents timestep cam0 latent_indices cl ci cl2 ci2 cl4 ci4
          minputs context
        = Inl (AssertionError (RopeSeqLenMismatch (size1 (rope_freqs asm'))
                                 (size1 (hidden_states asm'))))"
    using a by (elim conjE) (rule forward_before_blocks_mismatch; assumption)
qed


lemma WanModelMoe_init_small:
  assumes "WanModelMoe_init (\<lambda>name ix. 0) 2 16 4 16 1 2 (1, 2, 2) 1 1 False um mc = Inr self"
  shows "self = \<lparr>dim_attr = 2, freq_dim = 2, has_image_input = False,
         patch_size = (1, 2, 2), use_moe = um,
         moe_config = (case mc of None \<Rightarrow> [] | Some cfg \<Rightarrow> cfg),
         patch_embedding = mk_conv3d (\<lambda>name ix. 0) ''patch_embedding'' 16 2 (1, 2, 2),
         text_embedding = (mk_linear (\<lambda>name ix. 0) ''text_embedding.0'' [] 1 2,
                           mk_linear (\<lambda>name ix. 0) ''text_embedding.2'' [] 2 2),
         time_embedding = (mk_linear (\<lambda>name ix. 0) ''time_embedding.0'' [] 2 2,
                           mk_linear (\<lambda>name ix. 0) ''time_embedding.2'' [] 2 2),
         time_projection = mk_linear (\<lambda>name ix. 0) ''time_projection.1'' [] 2 (2 * 6),
         router_modality_to_expert =
           [(''sekai'', 0), (''nuscenes'', 1), (''openx'', 2), (''unknown'', 0)],
         top_k_attr = Some 1,
         blocks = map (\<lambda>layer. DiTBlockWithMoE_init (\<lambda>name ix. 0) layer 2 um mc) [0..<1],
         freqs_attr = precompute_freqs_cis_3d (2 div 1) 1024 10000,
         clean_x_embedder = None, sekai_processor = None, nuscenes_processor = None,
         openx_processor = None\<rparr>"
  using assms by (simp add: WanModelMoe_init_def)

theorem token_frequency_alignment_witness:
  "\<exists>self asm r.
     WanModelMoe_init (\<lambda>name ix. 0) 2 16 4 16 1 2 (1, 2, 2) 1 1 False True
       (Some [(''unified_dim'', 2)]) = Inr self \<and>
     process_input_hidden_states
       (self\<lparr>clean_x_embedder := Some (create_clean_x_embedder (\<lambda>name ix. 0) self)\<rparr>)
       \<lparr>n_batch = 1, n_chan = 16, n_time = 1, n_height = 2, n_width = 2,
        at5 = (\<lambda>b c t h w. 0)\<rparr>
       None
       (Some \<lparr>n_batch = 1, n_chan = 16, n_time = 1, n_height = 2, n_width = 2,
              at5 = (\<lambda>b c t h w. 0)\<rparr>) (Some [[5]])
       (Some \<lparr>n_batch = 1, n_chan = 16, n_time = 2, n_height = 4, n_width = 4,
              at5 = (\<lambda>b c t h w. 0)\<rparr>) (Some [[7, 8]])
       None None None (None :: (string \<times> real tensor3) list option) = Inr asm \<and>
     size1 (hidden_states asm) = size1 (rope_freqs asm) \<and>
     forward_before_blocks
       (self\<lparr>sekai_processor := Some (mk_linear (\<lambda>name ix. 0) ''sekai_processor'' [] 3 2)\<rparr>)
       \<lparr>n_batch = 1, n_chan = 16, n_time = 1, n_height = 2, n_width = 2,
        at5 = (\<lambda>b c t h w. 0)\<rparr>
       [1] None None None None None None None None
       (Some [(''sekai'', Dim3 (full 1 9 3 0))]) (Some (full 1 1 1 0)) = Inr r \<and>
     size1 (rope_freqs (tokens r)) = size1 (hidden_states (tokens r)) \<and>
     forward_before_blocks
       (self\<lparr>sekai_processor := Some (mk_linear (\<lambda>name ix. 0) ''sekai_processor'' [] 3 2)\<rparr>)
       \<lparr>n_batch = 1, n_chan = 16, n_time = 1, n_height = 2, n_width = 2,
        at5 = (\<lambda>b c t h w. 0)\<rparr>
       [1] None (Some [[0, 1]]) None None None None None None
       (Some [(''sekai'', Dim3 (full 1 9 3 0))]) (Some (full 1 1 1 0))
       = Inl (AssertionError (RopeSeqLenMismatch 2 1))"
proof -
  obtain self where init: "WanModelMoe_init (\<lambda>name ix. 0) 2 16 4 16 1 2 (1, 2, 2) 1 1 False True
       (Some [(''unified_dim'', 2)]) = Inr self"
    by (simp add: WanModelMoe_init_def)
  note self = WanModelMoe_init_small[OF init]
  define LAT :: "real tensor5" where
    "LAT = \<lparr>n_batch = 1, n_chan = 16, n_time = 1, n_height = 2, n_width = 2,
            at5 = (\<lambda>b c t h w. 0)\<rparr>"
  define CL2 :: "real tensor5" where
    "CL2 = \<lparr>n_batch = 1, n_chan = 16, n_time = 2, n_height = 4, n_width = 4,
            at5 = (\<lambda>b c t h w. 0)\<rparr>"
  define M1 where "M1 = self\<lparr>clean_x_embedder := Some (create_clean_x_embedder (\<lambda>name ix. 0) self)\<rparr>"
  define M2 where "M2 = self\<lparr>sekai_processor := Some (mk_linear (\<lambda>name ix. 0) ''sekai_processor'' [] 3 2)\<rparr>"
  define MI where "MI = Some [(''sekai'', Dim3 (full 1 9 3 0))]"
  \<comment> \<open>first part\<close>
  obtain asm where asm: "process_input_hidden_states M1 LAT None (Some LAT) (Some [[5]])
       (Some CL2) (Some [[7, 8]]) None None None (None :: (string \<times> real tensor3) list option)
       = Inr asm"
    unfolding M1_def LAT_def CL2_def self by (simp add: assembler_defs)
  obtain hidden0 where p: "patchify M1 LAT = Inr (hidden0, (1, 1, 1))"
    unfolding M1_def LAT_def self by (simp add: assembler_defs)
  have li: "\<forall>indices. (None :: int list list option) = Some indices \<longrightarrow> length (hd indices) = 1"
    by simp
  have wf: "\<forall>x indices e. Some LAT = Some x \<and> Some [[5::int]] = Some indices \<and>
        clean_x_embedder M1 = Some e \<longrightarrow>
        kernel_size (proj e) = (1, 2, 2) \<and> length (hd indices) = n_time x \<and>
        n_height x div 2 = 1 \<and> n_width x div 2 = 1"
    by (auto simp: M1_def LAT_def create_clean_x_embedder_def mk_conv3d_def)
  have A: "size1 (hidden_states asm) = size1 (rope_freqs asm)"
    using token_frequency_alignment[of M1 LAT None "Some LAT" "Some [[5]]" "Some CL2"
        "Some [[7, 8]]" None None None None asm hidden0 1 1 1] asm p li wf
    by blast
  \<comment> \<open>second part\<close>
  obtain r where r: "forward_before_blocks M2 LAT [1] None None None None None None None None
       MI (Some (full 1 1 1 0)) = Inr r"
    unfolding M2_def LAT_def MI_def self by (simp add: forward_defs assembler_defs)
  have B: "size1 (rope_freqs (tokens r)) = size1 (hidden_states (tokens r))"
    using token_frequency_alignment[of M2 LAT None None None None None None None None
        "None :: (string \<times> real tensor3) list option"
        undefined undefined undefined undefined undefined "[1]" None MI "Some (full 1 1 1 0)" r] r
    by blast
  \<comment> \<open>third part\<close>
  obtain mi' cam' where pm: "process_modality_inputs M2 MI = Inr (Some (mi', cam'))"
    unfolding M2_def MI_def self by (simp add: forward_defs assembler_defs)
  obtain asm' where asm': "process_input_hidden_states M2 LAT (Some [[0, 1]]) None None None None
       None None (Some cam') (Some mi') = Inr asm'"
      "size1 (rope_freqs asm') = 2" "size1 (hidden_states asm') = 1"
    using pm unfolding M2_def MI_def LAT_def self
    by (auto simp add: forward_defs assembler_defs)
  have ps: "patch_size M2 = (1, 2, 2)" by (simp add: M2_def self)
  obtain context' where cx: "(case Some (full 1 1 1 0) of None \<Rightarrow> Inr None
     | Some c \<Rightarrow> and_then (text_embedding_forward M2 c) (\<lambda>r. Inr (Some r))) = Inr context'"
    unfolding M2_def self by (simp add: forward_defs assembler_defs)
  obtain t where t: "time_embedding_forward M2 (sinusoidal_embedding_1d (freq_dim M2) [1]) = Inr t"
    "cols2 t = 2"
    unfolding M2_def self by (simp add: forward_defs assembler_defs)
  obtain tm where tm: "time_projection_forward M2 t = Inr tm"
    using t(2) unfolding M2_def self by (simp add: forward_defs assembler_defs)
  have ne: "size1 (rope_freqs asm') \<noteq> size1 (hidden_states asm')" "(1::nat) \<noteq> 0" "(2::nat) \<noteq> 0"
    using asm'(2,3) by simp_all
  have "forward_before_blocks M2 LAT [1] None (Some [[0, 1]]) None None None None None None
       MI (Some (full 1 1 1 0))
       = Inl (AssertionError (RopeSeqLenMismatch (size1 (rope_freqs asm'))
                                (size1 (hidden_states asm'))))"
    using token_frequency_alignment[of M2 LAT "Some [[0, 1]]" None None None None None None None
        "None :: (string \<times> real tensor3) list option"
        undefined undefined undefined undefined undefined "[1]" None MI "Some (full 1 1 1 0)"
        undefined mi' cam' asm' 1 2 2 context' t tm] pm asm'(1) ne ps cx t(1) tm
    by blast
  then have C: "forward_before_blocks M2 LAT [1] None (Some [[0, 1]]) None None None None None None
       MI (Some (full 1 1 1 0)) = Inl (AssertionError (RopeSeqLenMismatch 2 1))"
    using asm'(2,3) by simp
  show ?thesis
    using init asm A r B C unfolding M1_def M2_def LAT_def CL2_def MI_def by blast
qed

text \<open>
  The lengths differ without these conditions: with the 1x scale alone, a primary latent
  of one frame of 2 by 2 and a clean latent of one frame of 4 by 4, the clean latent gives
  4 tokens on its own grid and 1 frequency on the primary grid, so the assembler returns 5
  tokens and 2 frequencies.
\<close>

theorem token_frequency_alignment_counterexample:
  "\<not> isl (process_input_hidden_states
       ((projr (WanModelMoe_init (\<lambda>name ix. 0) 2 16 4 16 1 2 (1, 2, 2) 1 1 False False None))
          \<lparr>clean_x_embedder := Some (create_clean_x_embedder (\<lambda>name ix. 0)
             (projr (WanModelMoe_init (\<lambda>name ix. 0) 2 16 4 16 1 2 (1, 2, 2) 1 1 False False None)))\<rparr>)
       \<lparr>n_batch = 1, n_chan = 16, n_time = 1, n_height = 2, n_width = 2,
        at5 = (\<lambda>b c t h w. 0)\<rparr>
       None
       (Some \<lparr>n_batch = 1, n_chan = 16, n_time = 1, n_height = 4, n_width = 4,
              at5 = (\<lambda>b c t h w. 0)\<rparr>) (Some [[5]])
       None None None None None (None :: (string \<times> real tensor3) list option)) \<and>
   size1 (hidden_states (projr (process_input_hidden_states
       ((projr (WanModelMoe_init (\<lambda>name ix. 0) 2 16 4 16 1 2 (1, 2, 2) 1 1 False False None))
          \<lparr>clean_x_embedder := Some (create_clean_x_embedder (\<lambda>name ix. 0)
             (projr (WanModelMoe_init (\<lambda>name ix. 0) 2 16 4 16 1 2 (1, 2, 2) 1 1 False False None)))\<rparr>)
       \<lparr>n_batch = 1, n_chan = 16, n_time = 1, n_height = 2, n_width = 2,
        at5 = (\<lambda>b c t h w. 0)\<rparr>
       None
       (Some \<lparr>n_batch = 1, n_chan = 16, n_time = 1, n_height = 4, n_width = 4,
              at5 = (\<lambda>b c t h w. 0)\<rparr>) (Some [[5]])
       None None None None None (None :: (string \<times> real tensor3) list option)))) = 5 \<and>
   size1 (rope_freqs (projr (process_input_hidden_states
       ((projr (WanModelMoe_init (\<lambda>name ix. 0) 2 16 4 16 1 2 (1, 2, 2) 1 1 False False None))
          \<lparr>clean_x_embedder := Some (create_clean_x_embedder (\<lambda>name ix. 0)
             (projr (WanModelMoe_init (\<lambda>name ix. 0) 2 16 4 16 1 2 (1, 2, 2) 1 1 False False None)))\<rparr>)
       \<lparr>n_batch = 1, n_chan = 16, n_time = 1, n_height = 2, n_width = 2,
        at5 = (\<lambda>b c t h w. 0)\<rparr>
       None
       (Some \<lparr>n_batch = 1, n_chan = 16, n_time = 1, n_height = 4, n_width = 4,
              at5 = (\<lambda>b c t h w. 0)\<rparr>) (Some [[5]])
       None None None None None (None :: (string \<times> real tensor3) list option)))) = 2"
  by (simp add: WanModelMoe_init_def assembler_defs)

section \<open>The forward pass without modality inputs\<close>

text \<open>
  C1. On the single-scale scenario (a model of dimension 64 with 4 heads, one layer, patch
  size \<open>(1, 2, 2)\<close>, no image input and no mixture of experts; a latent
  \<open>[1, 16, 4, 16, 16]\<close>, a context \<open>[1, 10, 4096]\<close>, no clean latents and no modality
  inputs) the forward pass raises at its first statement: \<open>process_modality_inputs\<close>
  returns the single value \<open>None\<close>, which cannot be unpacked into two variables.
\<close>

theorem forward_without_modality_inputs_raises:
  "\<not> isl (WanModelMoe_init (\<lambda>name ix. 0) 64 16 128 16 4096 256 (1, 2, 2) 4 1 False False None) \<and>
   forward_before_blocks
     (projr (WanModelMoe_init (\<lambda>name ix. 0) 64 16 128 16 4096 256 (1, 2, 2) 4 1 False False None))
     \<lparr>n_batch = 1, n_chan = 16, n_time = 4, n_height = 16, n_width = 16,
      at5 = (\<lambda>b c t h w. 0)\<rparr>
     [500] None None None None None None None None None (Some (full 1 10 4096 0))
   = Inl TypeError"
  by (simp add: WanModelMoe_init_def forward_before_blocks_def process_modality_inputs_def
      and_then_def)


section \<open>The order of the prepended clean latents\<close>









end
